theory Spec2Isabelle
  imports Main "HOL-Library.Sublist"
begin

section \<open>Message protocol\<close>

text \<open>
  The envelope of \<^verbatim>\<open>schemas/messages\<close>: a record with the fields \<^verbatim>\<open>session_id\<close>,
  \<^verbatim>\<open>timestamp\<close> and \<^verbatim>\<open>payload\<close>. The \<^verbatim>\<open>type\<close> discriminator is the tag of the
  payload. A request (a task) always carries a session id; for a response the field is
  optional in the model, \<open>None\<close> standing for an object without the key.
  A JavaScript string is a \<open>string\<close>, each \<open>char\<close> one code unit below 256.
\<close>

record ('s, 'p) Envelope =
  session_id :: 's
  timestamp :: string
  payload :: 'p

record TaskPayload =
  agent_id :: string
  prompt :: string
  task_context :: "string option"
  parent_session_id :: "string option"

type_synonym TaskMessage = "(string, TaskPayload) Envelope"

datatype ErrorCode =
    VALIDATION_ERROR
  | UNKNOWN_AGENT
  | SESSION_NOT_FOUND
  | AGENT_ERROR
  | TIMEOUT
  | AUTONOMY_BLOCKED
  | APPROVAL_REQUIRED

fun ErrorCode_string :: "ErrorCode \<Rightarrow> string" where
  "ErrorCode_string VALIDATION_ERROR = ''VALIDATION_ERROR''"
| "ErrorCode_string UNKNOWN_AGENT = ''UNKNOWN_AGENT''"
| "ErrorCode_string SESSION_NOT_FOUND = ''SESSION_NOT_FOUND''"
| "ErrorCode_string AGENT_ERROR = ''AGENT_ERROR''"
| "ErrorCode_string TIMEOUT = ''TIMEOUT''"
| "ErrorCode_string AUTONOMY_BLOCKED = ''AUTONOMY_BLOCKED''"
| "ErrorCode_string APPROVAL_REQUIRED = ''APPROVAL_REQUIRED''"

record FailurePayload =
  fail_agent_id :: "string option"
  code :: ErrorCode
  message :: string
  cause :: "string option"

record EscalationOption =
  opt_label :: string
  opt_value :: string

record EscalationPayload =
  esc_agent_id :: string
  decision_id :: string
  esc_decision :: string
  options :: "EscalationOption list"
  esc_context :: string

record ResultPayload =
  res_agent_id :: string
  content :: string

text \<open>
  The payloads of the response variants. The gate, the retry executor and the dispatcher
  build and inspect failures, escalations and results only; the payloads of the other
  variants pass through them unread and are kept as their JSON text.
\<close>

datatype Payload =
    Failure FailurePayload
  | Escalation EscalationPayload
  | Result ResultPayload
  | Answer string
  | Plan string
  | Question string
  | Checkpoint string

type_synonym MessageEnvelope = "(string option, Payload) Envelope"

fun payload_type :: "Payload \<Rightarrow> string" where
  "payload_type (Failure _) = ''failure''"
| "payload_type (Escalation _) = ''escalation''"
| "payload_type (Result _) = ''result''"
| "payload_type (Answer _) = ''answer''"
| "payload_type (Plan _) = ''plan''"
| "payload_type (Question _) = ''question''"
| "payload_type (Checkpoint _) = ''checkpoint''"

definition msg_type :: "MessageEnvelope \<Rightarrow> string" where
  "msg_type m = payload_type (payload m)"

section \<open>Autonomy: classification and gate policy\<close>

text \<open>
  \<^verbatim>\<open>AutonomyLevel\<close>, \<^verbatim>\<open>ActionClassification\<close> and \<^verbatim>\<open>GateDecision\<close> are unions of
  string literals; at run time they are strings, and the code has \<^verbatim>\<open>default\<close> branches
  for strings outside the union. They are strings here.
\<close>

type_synonym AutonomyLevel = string
type_synonym ActionClassification = string
type_synonym GateDecision = string

definition DEFAULT_AUTONOMY_LEVEL :: AutonomyLevel where
  "DEFAULT_AUTONOMY_LEVEL = ''supervised''"

definition ROUTINE_AGENTS :: "string set" where
  "ROUTINE_AGENTS = {''researcher'', ''reviewer''}"

definition SIGNIFICANT_AGENTS :: "string set" where
  "SIGNIFICANT_AGENTS = {''coder'', ''tester'', ''document-writer'', ''strategist''}"

definition DANGEROUS_AGENTS :: "string set" where
  "DANGEROUS_AGENTS = {}"

subsection \<open>The regular expressions of the classifier\<close>

text \<open>
  Every pattern of the classifier is a sequence of literal characters, \<^verbatim>\<open>\b\<close> and
  \<^verbatim>\<open>\s+\<close>, with the flag \<^verbatim>\<open>i\<close> and no other flag, so \<^verbatim>\<open>test\<close> keeps no state
  between calls and searches from the start of the string.
\<close>

datatype atom = Chr char | WordBoundary | WhiteSpaces

type_synonym regex = "atom list"

definition lit :: "string \<Rightarrow> regex" where
  "lit s = map Chr s"

text \<open>\<^verbatim>\<open>\w\<close>: the letters and digits of ASCII and the underscore.\<close>

definition isWordChar :: "char \<Rightarrow> bool" where
  "isWordChar c =
     (let n = (of_char c :: nat)
      in (48 \<le> n \<and> n \<le> 57) \<or> (65 \<le> n \<and> n \<le> 90) \<or> n = 95 \<or> (97 \<le> n \<and> n \<le> 122))"

text \<open>\<^verbatim>\<open>\s\<close>: of the white space and line terminators, those below 256.\<close>

definition isWhiteSpace :: "char \<Rightarrow> bool" where
  "isWhiteSpace c =
     (let n = (of_char c :: nat) in (9 \<le> n \<and> n \<le> 13) \<or> n = 32 \<or> n = 160)"

text \<open>
  Canonicalize of the flag \<^verbatim>\<open>i\<close> (without \<^verbatim>\<open>u\<close>): the code unit of the upper-case
  form, when that form is one code unit and does not fall into ASCII from outside it.
\<close>

definition canonicalize :: "char \<Rightarrow> nat" where
  "canonicalize c =
     (let n = (of_char c :: nat)
      in if 97 \<le> n \<and> n \<le> 122 then n - 32
         else if 224 \<le> n \<and> n \<le> 254 \<and> n \<noteq> 247 then n - 32
         else if n = 181 then 924
         else if n = 255 then 376
         else n)"

definition isBoundary :: "char option \<Rightarrow> string \<Rightarrow> bool" where
  "isBoundary prev s =
     ((case prev of None \<Rightarrow> False | Some c \<Rightarrow> isWordChar c)
      \<noteq> (case s of [] \<Rightarrow> False | x # _ \<Rightarrow> isWordChar x))"

text \<open>
  \<open>matchHere p prev s\<close>: the pattern matches a prefix of \<open>s\<close>, where \<open>prev\<close> is the
  character before \<open>s\<close> in the whole input. \<^verbatim>\<open>\s+\<close> is greedy and backtracks.
\<close>

fun matchHere :: "regex \<Rightarrow> char option \<Rightarrow> string \<Rightarrow> bool" where
  "matchHere [] prev s = True"
| "matchHere (WordBoundary # p) prev s = (isBoundary prev s \<and> matchHere p prev s)"
| "matchHere (Chr c # p) prev [] = False"
| "matchHere (Chr c # p) prev (x # xs) =
     (canonicalize c = canonicalize x \<and> matchHere p (Some x) xs)"
| "matchHere (WhiteSpaces # p) prev [] = False"
| "matchHere (WhiteSpaces # p) prev (x # xs) =
     (isWhiteSpace x \<and> (matchHere (WhiteSpaces # p) (Some x) xs \<or> matchHere p (Some x) xs))"

fun searchFrom :: "regex \<Rightarrow> char option \<Rightarrow> string \<Rightarrow> bool" where
  "searchFrom p prev [] = matchHere p prev []"
| "searchFrom p prev (x # xs) = (matchHere p prev (x # xs) \<or> searchFrom p (Some x) xs)"

definition regex_test :: "regex \<Rightarrow> string \<Rightarrow> bool" where
  "regex_test p s = searchFrom p None s"

definition DANGEROUS_PATTERNS :: "regex list" where
  "DANGEROUS_PATTERNS =
    [ WordBoundary # lit ''delete'' @ [WordBoundary],
      WordBoundary # lit ''drop'' @ [WordBoundary],
      WordBoundary # lit ''remove'' @ WhiteSpaces # lit ''all'' @ [WordBoundary],
      WordBoundary # lit ''truncate'' @ [WordBoundary],
      WordBoundary # lit ''wipe'' @ [WordBoundary],
      WordBoundary # lit ''destroy'' @ [WordBoundary],
      WordBoundary # lit ''rm'' @ WhiteSpaces # lit ''-rf'' @ [WordBoundary],
      WordBoundary # lit ''force'' @ WhiteSpaces # lit ''push'' @ [WordBoundary],
      lit ''--force'' @ [WordBoundary],
      WordBoundary # lit ''reset'' @ WhiteSpaces # lit ''--hard'' @ [WordBoundary] ]"

definition SIGNIFICANT_PATTERNS :: "regex list" where
  "SIGNIFICANT_PATTERNS =
    [ WordBoundary # lit ''modify'' @ [WordBoundary],
      WordBoundary # lit ''update'' @ [WordBoundary],
      WordBoundary # lit ''change'' @ [WordBoundary],
      WordBoundary # lit ''create'' @ [WordBoundary],
      WordBoundary # lit ''write'' @ [WordBoundary],
      WordBoundary # lit ''implement'' @ [WordBoundary],
      WordBoundary # lit ''refactor'' @ [WordBoundary],
      WordBoundary # lit ''fix'' @ [WordBoundary],
      WordBoundary # lit ''add'' @ [WordBoundary],
      WordBoundary # lit ''migrat'',
      WordBoundary # lit ''deploy'',
      WordBoundary # lit ''install'' @ [WordBoundary] ]"

text \<open>The loop \<^verbatim>\<open>for (const pattern of patterns) if (pattern.test(prompt)) return ...\<close>.\<close>

fun anyPatternMatches :: "regex list \<Rightarrow> string \<Rightarrow> bool" where
  "anyPatternMatches [] s = False"
| "anyPatternMatches (p # ps) s = (if regex_test p s then True else anyPatternMatches ps s)"

text \<open>
  \<^verbatim>\<open>classifyAction(task, _agents)\<close>. The registry is a \<^verbatim>\<open>Record<string, AgentConfig>\<close>:
  an association list from agent ids to configurations of any type.
\<close>

definition classifyAction :: "TaskMessage \<Rightarrow> (string \<times> 'cfg) list \<Rightarrow> ActionClassification" where
  "classifyAction task agents =
     (let targetAgentId = agent_id (payload task); promptText = prompt (payload task)
      in if anyPatternMatches DANGEROUS_PATTERNS promptText then ''dangerous''
         else if targetAgentId \<in> DANGEROUS_AGENTS then ''dangerous''
         else if targetAgentId \<in> SIGNIFICANT_AGENTS then ''significant''
         else if anyPatternMatches SIGNIFICANT_PATTERNS promptText then ''significant''
         else if targetAgentId \<in> ROUTINE_AGENTS then ''routine''
         else ''routine'')"

text \<open>\<^verbatim>\<open>determineGate(level, classification)\<close>: the \<^verbatim>\<open>switch\<close> with its \<^verbatim>\<open>default\<close>.\<close>

definition determineGate :: "AutonomyLevel \<Rightarrow> ActionClassification \<Rightarrow> GateDecision" where
  "determineGate level classification =
     (if level = ''supervised'' then
        (if classification = ''dangerous'' then ''block'' else ''require_approval'')
      else if level = ''assisted'' then
        (if classification = ''dangerous'' then ''block''
         else if classification = ''significant'' then ''require_approval''
         else ''proceed'')
      else if level = ''autonomous'' then
        (if classification = ''dangerous'' then ''require_approval'' else ''proceed'')
      else ''require_approval'')"

record AutonomyConfig =
  level :: AutonomyLevel
  maxRetries :: int

definition DEFAULT_AUTONOMY_CONFIG :: AutonomyConfig where
  "DEFAULT_AUTONOMY_CONFIG = \<lparr>level = DEFAULT_AUTONOMY_LEVEL, maxRetries = 2\<rparr>"


section \<open>Pre-dispatch gate\<close>

record GateContext =
  task :: TaskMessage
  autonomyLevel :: AutonomyLevel
  classification :: ActionClassification
  decision :: GateDecision

datatype PreDispatchResult = Allowed | NotAllowed (response: MessageEnvelope)

fun allowed :: "PreDispatchResult \<Rightarrow> bool" where
  "allowed Allowed = True"
| "allowed (NotAllowed _) = False"

definition dquote :: string where
  "dquote = [CHR 0x22]"

text \<open>
  The two builders read the clock and the random source. The value that
  \<^verbatim>\<open>randomUUID()\<close> returns is the argument \<open>uuid\<close>, the value of \<^verbatim>\<open>nowTimestamp()\<close>
  the argument \<open>now\<close>.
\<close>

definition createBlockedFailure :: "GateContext \<Rightarrow> string \<Rightarrow> string \<Rightarrow> MessageEnvelope" where
  "createBlockedFailure ctx uuid now =
     \<lparr>session_id = Some uuid,
      timestamp = now,
      payload = Failure
        \<lparr>fail_agent_id = Some (agent_id (payload (task ctx))),
         code = AUTONOMY_BLOCKED,
         message = ''Operation blocked: '' @ classification ctx
                   @ '' action not permitted in '' @ autonomyLevel ctx @ '' mode'',
         cause = Some (''The operation targeting agent '' @ dquote
                   @ agent_id (payload (task ctx)) @ dquote
                   @ '' was classified as '' @ dquote @ classification ctx @ dquote
                   @ '' and is blocked under the current autonomy level '' @ dquote
                   @ autonomyLevel ctx @ dquote @ ''.'')\<rparr>\<rparr>"

definition approvalOptions :: "EscalationOption list" where
  "approvalOptions =
     [\<lparr>opt_label = ''Approve'', opt_value = ''approve''\<rparr>,
      \<lparr>opt_label = ''Reject'', opt_value = ''reject''\<rparr>,
      \<lparr>opt_label = ''Approve All (switch to autonomous)'', opt_value = ''approve_all''\<rparr>]"

definition createApprovalEscalation :: "GateContext \<Rightarrow> string \<Rightarrow> MessageEnvelope" where
  "createApprovalEscalation ctx now =
     \<lparr>session_id = Some (session_id (task ctx)),
      timestamp = now,
      payload = Escalation
        \<lparr>esc_agent_id = ''orca'',
         decision_id = ''approval-'' @ session_id (task ctx),
         esc_decision = ''Approve '' @ classification ctx @ '' action to ''
                   @ agent_id (payload (task ctx)) @ ''?'',
         options = approvalOptions,
         esc_context = ''**Target Agent**: '' @ agent_id (payload (task ctx))
                   @ ''\<newline>**Action Type**: '' @ classification ctx
                   @ ''\<newline>**Autonomy Level**: '' @ autonomyLevel ctx
                   @ ''\<newline>\<newline>**Task Prompt**:\<newline>'' @ prompt (payload (task ctx))
                   @ ''\<newline>\<newline>This action requires user approval under the current autonomy settings.''\<rparr>\<rparr>"

definition enforcePreDispatchGate :: "GateContext \<Rightarrow> string \<Rightarrow> string \<Rightarrow> PreDispatchResult" where
  "enforcePreDispatchGate ctx uuid now =
     (if decision ctx = ''proceed'' then Allowed
      else if decision ctx = ''require_approval'' then NotAllowed (createApprovalEscalation ctx now)
      else if decision ctx = ''block'' then NotAllowed (createBlockedFailure ctx uuid now)
      else NotAllowed (createApprovalEscalation ctx now))"

definition transformResponse ::
  "MessageEnvelope \<Rightarrow> AutonomyLevel \<Rightarrow> ActionClassification \<Rightarrow> MessageEnvelope" where
  "transformResponse resp lvl cls = resp"

section \<open>Retry on failure\<close>

text \<open>
  A value thrown by a callback or by the client: an \<^verbatim>\<open>Error\<close> with its message, or
  any other value with the outcome of \<^verbatim>\<open>String(err)\<close> for it: the text, or what the
  conversion throws (a \<^verbatim>\<open>TypeError\<close> for an object without \<^verbatim>\<open>toString\<close> and
  \<^verbatim>\<open>valueOf\<close>, such as one with a null prototype). An asynchronous computation takes the
  state of the outside world and returns the new state with either its value or what it
  threw.
\<close>

datatype thrown = ErrorInstance string | OtherValue "thrown + string"

type_synonym ('a, 'w) io = "'w \<Rightarrow> (thrown + 'a) \<times> 'w"

type_synonym FailureMessage = "(string option, FailurePayload) Envelope"

definition toEnvelope :: "FailureMessage \<Rightarrow> MessageEnvelope" where
  "toEnvelope f = \<lparr>session_id = session_id f, timestamp = timestamp f, payload = Failure (payload f)\<rparr>"

record RetryContext =
  failure :: FailureMessage
  rc_autonomyLevel :: AutonomyLevel
  attempts :: int
  rc_maxRetries :: int

record RetryDecision =
  shouldRetry :: bool
  reason :: string

definition RETRYABLE_ERROR_CODES :: "ErrorCode set" where
  "RETRYABLE_ERROR_CODES = {AGENT_ERROR, TIMEOUT, VALIDATION_ERROR}"

definition NON_RETRYABLE_ERROR_CODES :: "ErrorCode set" where
  "NON_RETRYABLE_ERROR_CODES = {UNKNOWN_AGENT, SESSION_NOT_FOUND, AUTONOMY_BLOCKED, APPROVAL_REQUIRED}"

text \<open>The decimal form of an integer, as a template literal prints it.\<close>

definition digit :: "nat \<Rightarrow> char" where
  "digit n = ''0123456789'' ! (n mod 10)"

function showNat :: "nat \<Rightarrow> string" where
  "showNat n = (if n < 10 then [digit n] else showNat (n div 10) @ [digit (n mod 10)])"
  by pat_completeness auto
termination
  by (relation "measure id") auto

definition showInt :: "int \<Rightarrow> string" where
  "showInt i = (if i < 0 then CHR ''-'' # showNat (nat (- i)) else showNat (nat i))"

definition shouldAutoRetry :: "RetryContext \<Rightarrow> RetryDecision" where
  "shouldAutoRetry ctx =
     (let errorCode = code (payload (failure ctx));
          lvl = rc_autonomyLevel ctx;
          n = attempts ctx;
          m = rc_maxRetries ctx
      in if n \<ge> m then
           \<lparr>shouldRetry = False,
            reason = ''Maximum retry attempts ('' @ showInt m @ '') exceeded''\<rparr>
         else if errorCode \<in> NON_RETRYABLE_ERROR_CODES then
           \<lparr>shouldRetry = False,
            reason = ''Error code '' @ ErrorCode_string errorCode @ '' is not retryable''\<rparr>
         else
           (let isRetryable = (errorCode \<in> RETRYABLE_ERROR_CODES)
            in if lvl = ''supervised'' then
                 \<lparr>shouldRetry = False,
                  reason = ''Supervised mode requires user confirmation for all failures''\<rparr>
               else if lvl = ''assisted'' then
                 (if isRetryable then
                    \<lparr>shouldRetry = True,
                     reason = ''Auto-retrying '' @ ErrorCode_string errorCode
                       @ '' in assisted mode (attempt '' @ showInt (n + 1) @ ''/'' @ showInt m @ '')''\<rparr>
                  else
                    \<lparr>shouldRetry = False,
                     reason = ''Error code '' @ ErrorCode_string errorCode
                       @ '' requires user attention in assisted mode''\<rparr>)
               else if lvl = ''autonomous'' then
                 (if isRetryable then
                    \<lparr>shouldRetry = True,
                     reason = ''Auto-retrying '' @ ErrorCode_string errorCode
                       @ '' in autonomous mode (attempt '' @ showInt (n + 1) @ ''/'' @ showInt m @ '')''\<rparr>
                  else
                    \<lparr>shouldRetry = False,
                     reason = ''Error code '' @ ErrorCode_string errorCode @ '' is a permanent failure''\<rparr>)
               else
                 \<lparr>shouldRetry = False, reason = ''Unknown autonomy level: '' @ lvl\<rparr>))"

text \<open>
  The loop of \<^verbatim>\<open>executeWithRetry\<close>, from the state \<^verbatim>\<open>currentFailure\<close>, \<^verbatim>\<open>attempts\<close>.
  The executor is a callback with effects: it takes the state of the world and returns the
  new one; when it throws, the loop throws.
\<close>

function retryLoop ::
  "AutonomyLevel \<Rightarrow> int \<Rightarrow> (MessageEnvelope, 'w) io \<Rightarrow> FailureMessage \<Rightarrow> int
   \<Rightarrow> (MessageEnvelope, 'w) io" where
  "retryLoop lvl m executor currentFailure n w =
     (if n < m then
        (if \<not> shouldRetry (shouldAutoRetry
               \<lparr>failure = currentFailure, rc_autonomyLevel = lvl, attempts = n, rc_maxRetries = m\<rparr>)
         then (Inr (toEnvelope currentFailure), w)
         else
           (case executor w of
              (Inl e, w') \<Rightarrow> (Inl e, w')
            | (Inr result, w') \<Rightarrow>
                (case payload result of
                   Failure fp \<Rightarrow>
                     retryLoop lvl m executor
                       \<lparr>session_id = session_id result, timestamp = timestamp result, payload = fp\<rparr>
                       (n + 1) w'
                 | _ \<Rightarrow> (Inr result, w'))))
      else (Inr (toEnvelope currentFailure), w))"
  by pat_completeness auto
termination
  by (relation "measure (\<lambda>(lvl, m, executor, currentFailure, n, w). nat (m - n))") auto

declare retryLoop.simps [simp del]

definition executeWithRetry ::
  "FailureMessage \<Rightarrow> AutonomyLevel \<Rightarrow> int \<Rightarrow> (MessageEnvelope, 'w) io \<Rightarrow> (MessageEnvelope, 'w) io" where
  "executeWithRetry fl lvl m executor w = retryLoop lvl m executor fl 0 w"

text \<open>
  A call counter around a callback, as the mock of the tests keeps one: the state of the
  world is paired with the number of calls made so far.
\<close>

definition counted :: "('w \<Rightarrow> 'r \<times> 'w) \<Rightarrow> (nat \<times> 'w \<Rightarrow> 'r \<times> (nat \<times> 'w))" where
  "counted f = (\<lambda>(calls, w). case f w of (r, w') \<Rightarrow> (r, (Suc calls, w')))"


text \<open>
  The fixtures of the retry tests: \<^verbatim>\<open>createFailure\<close>, \<^verbatim>\<open>createResult\<close>, and the
  executor that counts its calls in \<^verbatim>\<open>callCount\<close> and fails with \<^verbatim>\<open>AGENT_ERROR\<close> on
  its first \<open>k\<close> calls (the test has \<^verbatim>\<open>callCount < 2\<close>, that is \<open>k = 1\<close>). The state of
  the world is the counter.
\<close>

definition createFailure :: "ErrorCode \<Rightarrow> string \<Rightarrow> FailureMessage" where
  "createFailure c msg =
     \<lparr>session_id = Some ''550e8400-e29b-41d4-a716-446655440000'',
      timestamp = ''2024-01-01T00:00:00.000Z'',
      payload = \<lparr>fail_agent_id = None, code = c, message = msg, cause = None\<rparr>\<rparr>"

definition createResult :: "string \<Rightarrow> MessageEnvelope" where
  "createResult c =
     \<lparr>session_id = Some ''550e8400-e29b-41d4-a716-446655440000'',
      timestamp = ''2024-01-01T00:00:00.000Z'',
      payload = Result \<lparr>res_agent_id = ''coder'', content = c\<rparr>\<rparr>"

definition failingExecutor :: "nat \<Rightarrow> (MessageEnvelope, nat) io" where
  "failingExecutor k callCount =
     (if Suc callCount \<le> k
      then Inr (toEnvelope (createFailure AGENT_ERROR
                  (''Attempt '' @ showNat (Suc callCount) @ '' failed'')))
      else Inr (createResult ''Final success''),
      Suc callCount)"

section \<open>Validation with retry\<close>

text \<open>
  The module \<^verbatim>\<open>validation\<close> (\<^verbatim>\<open>validateMessage\<close>, \<^verbatim>\<open>wrapAsResultMessage\<close>,
  \<^verbatim>\<open>createFailureMessage\<close>, \<^verbatim>\<open>validateWithRetry\<close>) is not among the sources; only its
  tests and its callers are. The definitions of this section follow the specification,
  sections 4.1 and 4.2. The JSON parser, the envelope schema and the text of the correction
  prompt are parameters.
\<close>

text \<open>
  Modelled from the spec: \<^verbatim>\<open>ValidationConfig {maxRetries: int, wrapPlainText: bool}\<close> of
  the missing module \<^verbatim>\<open>types\<close>.
\<close>

record ValidationConfig =
  vc_maxRetries :: int
  wrapPlainText :: bool

text \<open>
  Modelled from the spec: the result of \<^verbatim>\<open>validate\<close> of the missing module: the parsed
  envelope, or \<^verbatim>\<open>{error, retryable}\<close>.
\<close>

datatype ValidationResult = Valid MessageEnvelope | Invalid (error: string) (retryable: bool)

fun isValid :: "ValidationResult \<Rightarrow> bool" where
  "isValid (Valid _) = True"
| "isValid (Invalid _ _) = False"

text \<open>
  What the missing module takes from its libraries: the JSON parser (\<open>None\<close> when the text
  is not JSON), the envelope schema (the offending fields with their reasons, or the
  envelope), and the text of the correction prompt for an error.
\<close>

record 'json Validator =
  parseJson :: "string \<Rightarrow> 'json option"
  checkSchema :: "'json \<Rightarrow> (string \<times> string) list + MessageEnvelope"
  correctionPrompt :: "string \<Rightarrow> string"

text \<open>
  Modelled from the spec: \<^verbatim>\<open>formatZodErrors\<close> of the missing module: the header
  "Message validation failed", then one line \<^verbatim>\<open>field: reason\<close> per offending field.
\<close>

definition formatZodErrors :: "(string \<times> string) list \<Rightarrow> string" where
  "formatZodErrors issues =
     ''Message validation failed:''
     @ concat (map (\<lambda>(field, why). ''\<newline>'' @ field @ '': '' @ why) issues)"

text \<open>
  Modelled from the spec: \<^verbatim>\<open>validate(raw)\<close> of the missing module: a parse failure
  fails with \<^verbatim>\<open>retryable = true\<close> and an error noting "not valid JSON"; a schema
  failure fails with \<^verbatim>\<open>retryable = true\<close> and the formatted field errors.
\<close>

definition validateMessage :: "'json Validator \<Rightarrow> string \<Rightarrow> ValidationResult" where
  "validateMessage v raw =
     (case parseJson v raw of
        None \<Rightarrow> Invalid ''Response is not valid JSON'' True
      | Some j \<Rightarrow>
          (case checkSchema v j of
             Inl issues \<Rightarrow> Invalid (formatZodErrors issues) True
           | Inr m \<Rightarrow> Valid m))"

text \<open>
  Modelled from the spec: \<^verbatim>\<open>wrapPlainText(text, agentId)\<close> of the missing module: a
  \<^verbatim>\<open>result\<close> envelope with a fresh session id and the current time.
\<close>

definition wrapAsResultMessage :: "string \<Rightarrow> string \<Rightarrow> string \<Rightarrow> string \<Rightarrow> MessageEnvelope" where
  "wrapAsResultMessage uuid now text agentId =
     \<lparr>session_id = Some uuid, timestamp = now,
      payload = Result \<lparr>res_agent_id = agentId, content = text\<rparr>\<rparr>"

text \<open>
  Modelled from the spec: \<^verbatim>\<open>createFailure(code, message, cause?)\<close> of the missing
  module: a failure envelope with a fresh session id and the current time, without
  \<^verbatim>\<open>cause\<close> when none is supplied.
\<close>

definition createFailureMessage ::
  "string \<Rightarrow> string \<Rightarrow> ErrorCode \<Rightarrow> string \<Rightarrow> string option \<Rightarrow> MessageEnvelope" where
  "createFailureMessage uuid now c msg cs =
     \<lparr>session_id = Some uuid, timestamp = now,
      payload = Failure \<lparr>fail_agent_id = None, code = c, message = msg, cause = cs\<rparr>\<rparr>"

text \<open>
  Modelled from the spec: the failure of step 4 and of the end of step 5 of
  \<^verbatim>\<open>validateWithRetry\<close>: code \<^verbatim>\<open>VALIDATION_ERROR\<close>, a message from the validation
  error, the agent id attached.
\<close>

definition validationFailure :: "string \<Rightarrow> string \<Rightarrow> string \<Rightarrow> string \<Rightarrow> MessageEnvelope" where
  "validationFailure uuid now agentId err =
     \<lparr>session_id = Some uuid, timestamp = now,
      payload = Failure \<lparr>fail_agent_id = Some agentId, code = VALIDATION_ERROR,
                         message = err, cause = None\<rparr>\<rparr>"

text \<open>
  Modelled from the spec: step 5 of \<^verbatim>\<open>validateWithRetry\<close> of the missing module: up
  to \<^verbatim>\<open>maxRetries\<close> times, ask the sender for a new text and validate it again; stop at
  the first success. \<open>n\<close> is the number of correction attempts made so far. The sender is a
  callback with effects on a state \<open>'s\<close>.
\<close>

function correctionLoop ::
  "'json Validator \<Rightarrow> string \<Rightarrow> string \<Rightarrow> string \<Rightarrow> int \<Rightarrow> (string \<Rightarrow> 's \<Rightarrow> string \<times> 's)
   \<Rightarrow> string \<Rightarrow> int \<Rightarrow> 's \<Rightarrow> MessageEnvelope \<times> 's" where
  "correctionLoop v uuid now agentId m sender err n s =
     (if n < m then
        (case sender (correctionPrompt v err) s of
           (raw, s') \<Rightarrow>
             (case validateMessage v raw of
                Valid msg \<Rightarrow> (msg, s')
              | Invalid err' r \<Rightarrow> correctionLoop v uuid now agentId m sender err' (n + 1) s'))
      else (validationFailure uuid now agentId err, s))"
  by pat_completeness auto
termination
  by (relation "measure (\<lambda>(v, uuid, now, agentId, m, sender, err, n, s). nat (m - n))") auto

declare correctionLoop.simps [simp del]

text \<open>
  Modelled from the spec: \<^verbatim>\<open>validateWithRetry(raw, agentId, config, correctionSender?)\<close>
  of the missing module, steps 1 to 5 of section 4.2.
\<close>

definition validateWithRetry ::
  "'json Validator \<Rightarrow> string \<Rightarrow> string \<Rightarrow> string \<Rightarrow> string \<Rightarrow> ValidationConfig
   \<Rightarrow> (string \<Rightarrow> 's \<Rightarrow> string \<times> 's) option \<Rightarrow> 's \<Rightarrow> MessageEnvelope \<times> 's" where
  "validateWithRetry v uuid now raw agentId config correctionSender s =
     (case validateMessage v raw of
        Valid msg \<Rightarrow> (msg, s)
      | Invalid err r \<Rightarrow>
          if wrapPlainText config \<and> parseJson v raw = None
          then (wrapAsResultMessage uuid now raw agentId, s)
          else
            (case correctionSender of
               None \<Rightarrow> (validationFailure uuid now agentId err, s)
             | Some sender \<Rightarrow>
                 if vc_maxRetries config \<le> 0 then (validationFailure uuid now agentId err, s)
                 else correctionLoop v uuid now agentId (vc_maxRetries config) sender err 0 s))"


text \<open>
  The sender counted: \<open>countedSender sender\<close> is \<open>sender\<close> with the number of its calls
  kept beside its state.
\<close>

definition countedSender ::
  "(string \<Rightarrow> 's \<Rightarrow> string \<times> 's) \<Rightarrow> (string \<Rightarrow> nat \<times> 's \<Rightarrow> string \<times> (nat \<times> 's))" where
  "countedSender sender = (\<lambda>p. counted (sender p))"

text \<open>
  A validator for the examples: a text is JSON when it starts with an opening and ends
  with a closing brace, and the JSON text of two braces alone fails the schema for its
  missing \<^verbatim>\<open>type\<close>; every other JSON text is a result envelope with that content. The
  sender is the one of the test "returns failure after maxRetries exhausted", which answers
  every correction with the same invalid text.
\<close>

definition bracesValidator :: "string Validator" where
  "bracesValidator =
     \<lparr>parseJson = (\<lambda>raw. case raw of
                             [] \<Rightarrow> None
                           | c # cs \<Rightarrow> if c = CHR ''{'' \<and> last raw = CHR ''}'' then Some raw else None),
      checkSchema = (\<lambda>j. if j = ''{}'' then Inl [(''type'', ''Required'')] else Inr (createResult j)),
      correctionPrompt = (\<lambda>err. ''Please resend in the envelope format. '' @ err)\<rparr>"

definition stillInvalidSender :: "string \<Rightarrow> unit \<Rightarrow> string \<times> unit" where
  "stillInvalidSender correction s = (''{ still invalid'', s)"

section \<open>Dispatch\<close>

definition io_return :: "'a \<Rightarrow> ('a, 'w) io" where
  "io_return a = (\<lambda>w. (Inr a, w))"

text \<open>\<^verbatim>\<open>await\<close> in sequence: when the first computation throws, the rest is skipped.\<close>

definition io_bind :: "('a, 'w) io \<Rightarrow> ('a \<Rightarrow> ('b, 'w) io) \<Rightarrow> ('b, 'w) io" where
  "io_bind m f = (\<lambda>w. case m w of (Inl e, w') \<Rightarrow> (Inl e, w') | (Inr a, w') \<Rightarrow> f a w')"

text \<open>
  A response part of the client: its \<^verbatim>\<open>type\<close>, and its \<^verbatim>\<open>text\<close> when it has the key.
\<close>

record Part =
  part_type :: string
  part_text :: "string option"

text \<open>
  The two calls of the client that the dispatcher makes. \<open>sessionCreate\<close> gives
  \<^verbatim>\<open>createResult.data?.id\<close>, \<open>sessionPrompt id agent text\<close> gives
  \<^verbatim>\<open>promptResult.data?.parts\<close>; both may throw.
\<close>

record 'w Client =
  sessionCreate :: "(string option, 'w) io"
  sessionPrompt :: "string \<Rightarrow> string \<Rightarrow> string \<Rightarrow> (Part list option, 'w) io"

text \<open>
  The abort signal belongs to the caller; \<open>abort\<close> reads \<^verbatim>\<open>aborted\<close> off the
  state of the world, and is \<open>None\<close> when the context has no signal. The registry
  \<open>agents\<close> lists the own keys of the object with their configurations, in the order of
  \<^verbatim>\<open>Object.keys\<close>; what the object inherits is in \<open>registryHas\<close> below.
\<close>

record ('w, 'cfg) DispatchContext =
  client :: "'w Client"
  agents :: "(string \<times> 'cfg) list"
  validationConfig :: ValidationConfig
  autonomyConfig :: "AutonomyConfig option"
  abort :: "('w \<Rightarrow> bool) option"

text \<open>
  What the dispatcher uses and the sources do not define: \<^verbatim>\<open>JSON.parse\<close>, which
  may throw, the schema of the task message, \<^verbatim>\<open>JSON.stringify\<close>, the random source
  and the clock (read off the state of the world), and \<^verbatim>\<open>validateWithRetry\<close> of the
  missing module \<^verbatim>\<open>validation\<close>, taken here as any computation, also one that throws.
\<close>

record ('w, 'json) Runtime =
  jsonParse :: "string \<Rightarrow> thrown + 'json"
  taskSchema :: "'json \<Rightarrow> TaskMessage option"
  stringify :: "MessageEnvelope \<Rightarrow> string"
  randomUUID :: "'w \<Rightarrow> string"
  nowTimestamp :: "'w \<Rightarrow> string"
  rt_validateWithRetry ::
    "string \<Rightarrow> string \<Rightarrow> ValidationConfig \<Rightarrow> (string \<Rightarrow> (string, 'w) io) \<Rightarrow> (MessageEnvelope, 'w) io"

definition parseTaskMessage :: "('w, 'json) Runtime \<Rightarrow> string \<Rightarrow> TaskMessage option" where
  "parseTaskMessage rt messageJson =
     (case jsonParse rt messageJson of
        Inl e \<Rightarrow> None
      | Inr parsed \<Rightarrow> taskSchema rt parsed)"

definition isTextPart :: "Part \<Rightarrow> bool" where
  "isTextPart part = (part_type part = ''text'' \<and> part_text part \<noteq> None)"

fun joinWith :: "string \<Rightarrow> string list \<Rightarrow> string" where
  "joinWith sep [] = []"
| "joinWith sep [x] = x"
| "joinWith sep (x # y # ys) = x @ sep @ joinWith sep (y # ys)"

definition extractTextFromParts :: "Part list \<Rightarrow> string" where
  "extractTextFromParts parts =
     joinWith ''\<newline>''
       (map (\<lambda>part. case part_text part of Some t \<Rightarrow> t | None \<Rightarrow> [])
            (filter isTextPart parts))"

text \<open>\<^verbatim>\<open>createFailureMessage\<close> with the session id and the time of the moment \<open>w\<close>.\<close>

definition failureAt ::
  "('w, 'json) Runtime \<Rightarrow> 'w \<Rightarrow> ErrorCode \<Rightarrow> string \<Rightarrow> string option \<Rightarrow> MessageEnvelope" where
  "failureAt rt w c msg cs = createFailureMessage (randomUUID rt w) (nowTimestamp rt w) c msg cs"

definition promptText :: "'w Client \<Rightarrow> string \<Rightarrow> string \<Rightarrow> string \<Rightarrow> (string, 'w) io" where
  "promptText cl sessionId agent text =
     io_bind (sessionPrompt cl sessionId agent text)
       (\<lambda>parts. io_return (extractTextFromParts (case parts of None \<Rightarrow> [] | Some ps \<Rightarrow> ps)))"

definition executeDispatch ::
  "('w, 'json) Runtime \<Rightarrow> TaskMessage \<Rightarrow> ('w, 'cfg) DispatchContext \<Rightarrow> (MessageEnvelope, 'w) io" where
  "executeDispatch rt tsk ctx =
     (let targetAgentId = agent_id (payload tsk);
          promptOfTask = prompt (payload tsk);
          parent = (case parent_session_id (payload tsk) of
                      None \<Rightarrow> None
                    | Some p \<Rightarrow> if p = [] then None else Some p)
      in io_bind
           (case parent of
              Some p \<Rightarrow> io_return (Some p)
            | None \<Rightarrow>
                io_bind (sessionCreate (client ctx))
                  (\<lambda>created. io_return
                     (case created of None \<Rightarrow> None | Some i \<Rightarrow> if i = [] then None else Some i)))
           (\<lambda>session.
              case session of
                None \<Rightarrow>
                  (\<lambda>w. (Inr (failureAt rt w SESSION_NOT_FOUND ''Failed to create session''
                                (Some ''Session creation returned no ID'')), w))
              | Some sessionId \<Rightarrow>
                  io_bind (promptText (client ctx) sessionId targetAgentId promptOfTask)
                    (\<lambda>responseText.
                       if responseText = [] then
                         (\<lambda>w. (Inr (failureAt rt w AGENT_ERROR ''Agent returned empty response''
                                       (Some (''Agent '' @ targetAgentId @ '' produced no text output''))), w))
                       else
                         rt_validateWithRetry rt responseText targetAgentId (validationConfig ctx)
                           (\<lambda>correction. promptText (client ctx) sessionId targetAgentId correction))))"

text \<open>The statements inside \<^verbatim>\<open>try\<close> of \<^verbatim>\<open>dispatchToAgent\<close>.\<close>

definition dispatchBody ::
  "('w, 'json) Runtime \<Rightarrow> TaskMessage \<Rightarrow> ('w, 'cfg) DispatchContext \<Rightarrow> AutonomyConfig
   \<Rightarrow> ActionClassification \<Rightarrow> (string, 'w) io" where
  "dispatchBody rt tsk ctx cfg cls =
     io_bind (executeDispatch rt tsk ctx)
       (\<lambda>result.
          io_bind
            (case payload result of
               Failure fp \<Rightarrow>
                 executeWithRetry
                   \<lparr>session_id = session_id result, timestamp = timestamp result, payload = fp\<rparr>
                   (level cfg) (maxRetries cfg) (executeDispatch rt tsk ctx)
             | _ \<Rightarrow> io_return result)
            (\<lambda>final. io_return (stringify rt (transformResponse final (level cfg) cls))))"

text \<open>
  \<^verbatim>\<open>err instanceof Error ? err.message : String(err)\<close>: the text, or what the conversion
  throws.
\<close>

fun errorText :: "thrown \<Rightarrow> thrown + string" where
  "errorText (ErrorInstance msg) = Inr msg"
| "errorText (OtherValue str) = str"

text \<open>
  The \<^verbatim>\<open>catch\<close> block of \<^verbatim>\<open>dispatchToAgent\<close>, at the moment \<open>w\<close> of the catch. The
  block is not inside a \<^verbatim>\<open>try\<close>: what the conversion of \<open>err\<close> throws leaves
  \<^verbatim>\<open>dispatchToAgent\<close>.
\<close>

definition dispatchCatch ::
  "('w, 'json) Runtime \<Rightarrow> ('w, 'cfg) DispatchContext \<Rightarrow> thrown \<Rightarrow> (string, 'w) io" where
  "dispatchCatch rt ctx err w =
     (if (case abort ctx of None \<Rightarrow> False | Some aborted \<Rightarrow> aborted w) then
        (Inr (stringify rt (failureAt rt w TIMEOUT ''Request timed out or was cancelled'' None)), w)
      else
        (case errorText err of
           Inl e \<Rightarrow> (Inl e, w)
         | Inr text \<Rightarrow>
             (Inr (stringify rt (failureAt rt w AGENT_ERROR ''Agent execution failed''
                                   (Some text))), w)))"

text \<open>
  \<^verbatim>\<open>ctx.agents[targetAgentId]\<close> reads a property of the registry, an ordinary object: it
  finds the own keys, whose values are configurations, and the properties that every
  object inherits from \<^verbatim>\<open>Object.prototype\<close>, whose values are functions or, for
  \<^verbatim>\<open>__proto__\<close>, the prototype itself. All of these are truthy.
\<close>

definition OBJECT_PROTOTYPE_KEYS :: "string set" where
  "OBJECT_PROTOTYPE_KEYS =
     {''constructor'', ''hasOwnProperty'', ''isPrototypeOf'', ''propertyIsEnumerable'',
      ''toLocaleString'', ''toString'', ''valueOf'', ''__proto__'',
      ''__defineGetter__'', ''__defineSetter__'', ''__lookupGetter__'', ''__lookupSetter__''}"

definition registryHas :: "(string \<times> 'cfg) list \<Rightarrow> string \<Rightarrow> bool" where
  "registryHas registry key =
     (case map_of registry key of Some c \<Rightarrow> True | None \<Rightarrow> key \<in> OBJECT_PROTOTYPE_KEYS)"

definition dispatchToAgent ::
  "('w, 'json) Runtime \<Rightarrow> string \<Rightarrow> ('w, 'cfg) DispatchContext \<Rightarrow> (string, 'w) io" where
  "dispatchToAgent rt messageJson ctx w =
     (let cfg = (case autonomyConfig ctx of None \<Rightarrow> DEFAULT_AUTONOMY_CONFIG | Some c \<Rightarrow> c)
      in case parseTaskMessage rt messageJson of
           None \<Rightarrow>
             (Inr (stringify rt (failureAt rt w VALIDATION_ERROR ''Invalid task message format''
                     (Some ''Message must be a valid TaskMessage JSON envelope''))), w)
         | Some tsk \<Rightarrow>
             (let targetAgentId = agent_id (payload tsk)
              in if \<not> registryHas (agents ctx) targetAgentId then
                   (Inr (stringify rt (failureAt rt w UNKNOWN_AGENT
                           (''Unknown agent: '' @ targetAgentId)
                           (Some (''Available agents: '' @ joinWith '', '' (map fst (agents ctx)))))), w)
                 else
                   (let cls = classifyAction tsk (agents ctx);
                        dec = determineGate (level cfg) cls
                    in case enforcePreDispatchGate
                              \<lparr>task = tsk, autonomyLevel = level cfg, classification = cls, decision = dec\<rparr>
                              (randomUUID rt w) (nowTimestamp rt w) of
                         NotAllowed resp \<Rightarrow> (Inr (stringify rt resp), w)
                       | Allowed \<Rightarrow>
                           (case dispatchBody rt tsk ctx cfg cls w of
                              (Inl err, w') \<Rightarrow> dispatchCatch rt ctx err w'
                            | (Inr out, w') \<Rightarrow> (Inr out, w')))))"

text \<open>The fixture \<^verbatim>\<open>createTaskMessage\<close> of the gate tests.\<close>

definition createTaskMessage :: "string \<Rightarrow> string \<Rightarrow> TaskMessage" where
  "createTaskMessage agentId p =
     \<lparr>session_id = ''550e8400-e29b-41d4-a716-446655440000'',
      timestamp = ''2024-01-01T00:00:00.000Z'',
      payload = \<lparr>agent_id = agentId, prompt = p, task_context = None, parent_session_id = None\<rparr>\<rparr>"

text \<open>The fixture \<^verbatim>\<open>createGateContext\<close> of the gate tests, on the task "Write some code" for the coder.\<close>

definition createGateContext :: "AutonomyLevel \<Rightarrow> ActionClassification \<Rightarrow> GateDecision \<Rightarrow> GateContext" where
  "createGateContext lvl cls d =
     \<lparr>task = createTaskMessage ''coder'' ''Write some code'',
      autonomyLevel = lvl, classification = cls, decision = d\<rparr>"

text \<open>
  A runtime and a context for running the dispatcher: the world is the abort flag, a
  message is its own JSON value, the only well-formed message is the text "task", an
  envelope is serialised to its type and the code of its failure, and the client throws
  on every call.
\<close>

definition demoRuntime :: "(bool, string) Runtime" where
  "demoRuntime =
     \<lparr>jsonParse = (\<lambda>s. if s = [] then Inl (ErrorInstance ''Unexpected end of JSON input'') else Inr s),
      taskSchema = (\<lambda>j. if j = ''task''
                          then Some (createTaskMessage ''researcher'' ''Look at the logs'')
                          else None),
      stringify = (\<lambda>m. case payload m of
                           Failure fp \<Rightarrow> ''failure:'' @ ErrorCode_string (code fp) @ '':''
                                           @ (case cause fp of None \<Rightarrow> [] | Some c \<Rightarrow> c)
                         | other \<Rightarrow> payload_type other),
      randomUUID = (\<lambda>w. ''1b9d6bcd-bbfd-4b2d-9b5d-ab8dfbbd4bed''),
      nowTimestamp = (\<lambda>w. ''2024-01-01T00:00:00.000Z''),
      rt_validateWithRetry = (\<lambda>raw agentId config sender w.
         (Inr \<lparr>session_id = None, timestamp = ''2024-01-01T00:00:00.000Z'',
               payload = Result \<lparr>res_agent_id = agentId, content = raw\<rparr>\<rparr>, w))\<rparr>"

definition demoContext :: "(bool, unit) DispatchContext" where
  "demoContext =
     \<lparr>client = \<lparr>sessionCreate = (\<lambda>w. (Inl (ErrorInstance ''connection refused''), w)),
                 sessionPrompt = (\<lambda>sessionId agent text w. (Inl (ErrorInstance ''connection refused''), w))\<rparr>,
      agents = [(''researcher'', ()), (''coder'', ())],
      validationConfig = \<lparr>vc_maxRetries = 2, wrapPlainText = True\<rparr>,
      autonomyConfig = Some \<lparr>level = ''autonomous'', maxRetries = 2\<rparr>,
      abort = Some (\<lambda>w. w)\<rparr>"

text \<open>
  A client whose calls throw an object with a null prototype (\<^verbatim>\<open>Object.create(null)\<close>),
  for which \<^verbatim>\<open>String\<close> throws a \<^verbatim>\<open>TypeError\<close>.
\<close>

definition nullPrototypeObject :: thrown where
  "nullPrototypeObject = OtherValue (Inl (ErrorInstance ''Cannot convert object to primitive value''))"

definition nullPrototypeClient :: "bool Client" where
  "nullPrototypeClient =
     \<lparr>sessionCreate = (\<lambda>w. (Inl nullPrototypeObject, w)),
      sessionPrompt = (\<lambda>sessionId agent text w. (Inl nullPrototypeObject, w))\<rparr>"

text \<open>A client whose session creation answers without an id.\<close>

definition noSessionClient :: "bool Client" where
  "noSessionClient =
     \<lparr>sessionCreate = (\<lambda>w. (Inr None, w)),
      sessionPrompt = (\<lambda>sessionId agent text w. (Inr None, w))\<rparr>"

text \<open>Strings that differ in the case of letters only, in the sense of the flag \<^verbatim>\<open>i\<close>.\<close>

definition sameUpToCase :: "string \<Rightarrow> string \<Rightarrow> bool" where
  "sameUpToCase s t = (map canonicalize s = map canonicalize t)"

text \<open>
  The orders of the gate policy: levels \<^verbatim>\<open>supervised < assisted < autonomous\<close>,
  decisions \<^verbatim>\<open>block < require_approval < proceed\<close>.
\<close>

definition LEVELS :: "AutonomyLevel list" where
  "LEVELS = [''supervised'', ''assisted'', ''autonomous'']"

definition DECISIONS :: "GateDecision list" where
  "DECISIONS = [''block'', ''require_approval'', ''proceed'']"

fun rank :: "string list \<Rightarrow> string \<Rightarrow> nat" where
  "rank [] x = 0"
| "rank (y # ys) x = (if x = y then 0 else Suc (rank ys x))"


section \<open>The gate policy\<close>

text \<open>
  C1. \<^verbatim>\<open>determineGate\<close> is a total function of its two arguments and agrees with the
  decision table on every pair of a level and a classification: supervised gives
  \<^verbatim>\<open>require_approval\<close>, \<^verbatim>\<open>require_approval\<close>, \<^verbatim>\<open>block\<close> for routine, significant,
  dangerous; assisted gives \<^verbatim>\<open>proceed\<close>, \<^verbatim>\<open>require_approval\<close>, \<^verbatim>\<open>block\<close>; autonomous
  gives \<^verbatim>\<open>proceed\<close>, \<^verbatim>\<open>proceed\<close>, \<^verbatim>\<open>require_approval\<close>; a level that is none of the three
  gives \<^verbatim>\<open>require_approval\<close> for every classification.
\<close>

theorem determineGate_table:
  "determineGate ''supervised'' ''routine'' = ''require_approval''
   \<and> determineGate ''supervised'' ''significant'' = ''require_approval''
   \<and> determineGate ''supervised'' ''dangerous'' = ''block''
   \<and> determineGate ''assisted'' ''routine'' = ''proceed''
   \<and> determineGate ''assisted'' ''significant'' = ''require_approval''
   \<and> determineGate ''assisted'' ''dangerous'' = ''block''
   \<and> determineGate ''autonomous'' ''routine'' = ''proceed''
   \<and> determineGate ''autonomous'' ''significant'' = ''proceed''
   \<and> determineGate ''autonomous'' ''dangerous'' = ''require_approval''
   \<and> (\<forall>lvl cls. lvl \<notin> set LEVELS \<longrightarrow> determineGate lvl cls = ''require_approval'')"
  by (simp add: determineGate_def LEVELS_def)

theorem determineGate_table_witness:
  "''manual'' \<notin> set LEVELS \<and> determineGate ''manual'' ''dangerous'' = ''require_approval''
   \<and> determineGate ''assisted'' ''routine'' = ''proceed''"
  using determineGate_table by (simp add: LEVELS_def)

text \<open>
  C8. \<^verbatim>\<open>determineGate\<close> is monotonic in the level: with the levels ordered
  supervised, assisted, autonomous and the decisions ordered block, require_approval,
  proceed, a higher level never gives a lower decision for the same classification; and
  for every level, recognised or not, a dangerous action never gets \<^verbatim>\<open>proceed\<close>.
\<close>

theorem determineGate_monotonic:
  "(\<forall>l1 \<in> set LEVELS. \<forall>l2 \<in> set LEVELS. \<forall>cls.
       rank LEVELS l1 \<le> rank LEVELS l2 \<longrightarrow>
       rank DECISIONS (determineGate l1 cls) \<le> rank DECISIONS (determineGate l2 cls))
   \<and> (\<forall>lvl. determineGate lvl ''dangerous'' \<noteq> ''proceed'')"
  by (simp add: determineGate_def LEVELS_def DECISIONS_def)

theorem determineGate_monotonic_witness:
  "''supervised'' \<in> set LEVELS \<and> ''autonomous'' \<in> set LEVELS
   \<and> rank LEVELS ''supervised'' \<le> rank LEVELS ''autonomous''
   \<and> rank DECISIONS (determineGate ''supervised'' ''routine'') = 1
   \<and> rank DECISIONS (determineGate ''autonomous'' ''routine'') = 2
   \<and> rank DECISIONS (determineGate ''supervised'' ''routine'')
        \<le> rank DECISIONS (determineGate ''autonomous'' ''routine'')
   \<and> determineGate ''autonomous'' ''dangerous'' \<noteq> ''proceed''"
  using determineGate_monotonic by (simp add: determineGate_def LEVELS_def DECISIONS_def)

section \<open>The classifier\<close>

lemma anyPatternMatches_iff: "anyPatternMatches ps s = (\<exists>p\<in>set ps. regex_test p s)"
  by (induction ps) auto

lemma canonicalize_classes:
  assumes "canonicalize x = canonicalize y"
  shows "isWordChar x = isWordChar y" and "isWhiteSpace x = isWhiteSpace y"
  using assms
  by (auto simp: canonicalize_def isWordChar_def isWhiteSpace_def Let_def split: if_splits)

lemma isBoundary_case:
  "map_option canonicalize prev = map_option canonicalize prev' \<Longrightarrow> map canonicalize s = map canonicalize t
   \<Longrightarrow> isBoundary prev s = isBoundary prev' t"
  by (cases prev; cases prev'; cases s; cases t) (auto simp: isBoundary_def dest: canonicalize_classes(1))

lemma matchHere_case:
  "map_option canonicalize prev = map_option canonicalize prev' \<Longrightarrow> map canonicalize s = map canonicalize t
   \<Longrightarrow> matchHere p prev s = matchHere p prev' t"
proof (induction p prev s arbitrary: prev' t rule: matchHere.induct)
  case (1 prev s)
  then show ?case by simp
next
  case (2 p prev s)
  then show ?case using isBoundary_case[of prev prev' s t] by simp
next
  case (3 c p prev)
  then show ?case by simp
next
  case (4 c p prev x xs)
  then obtain y ys where t: "t = y # ys" "canonicalize x = canonicalize y" "map canonicalize xs = map canonicalize ys"
    by (cases t) auto
  have "matchHere p (Some x) xs = matchHere p (Some y) ys"
    using 4(1)[of "Some y" ys] t by simp
  then show ?case using t by simp
next
  case (5 p prev)
  then show ?case by simp
next
  case (6 p prev x xs)
  then obtain y ys where t: "t = y # ys" "canonicalize x = canonicalize y" "map canonicalize xs = map canonicalize ys"
    by (cases t) auto
  have "matchHere (WhiteSpaces # p) (Some x) xs = matchHere (WhiteSpaces # p) (Some y) ys"
    using 6(1)[of "Some y" ys] t by simp
  moreover have "matchHere p (Some x) xs = matchHere p (Some y) ys"
    using 6(2)[of "Some y" ys] t by simp
  ultimately show ?case using t canonicalize_classes(2)[OF t(2)] by simp
qed

lemma searchFrom_case:
  "map_option canonicalize prev = map_option canonicalize prev' \<Longrightarrow> map canonicalize s = map canonicalize t
   \<Longrightarrow> searchFrom p prev s = searchFrom p prev' t"
proof (induction s arbitrary: prev prev' t)
  case Nil
  then show ?case using matchHere_case[of prev prev' "[]" "[]" p] by simp
next
  case (Cons x xs)
  then obtain y ys where t: "t = y # ys" "canonicalize x = canonicalize y" "map canonicalize xs = map canonicalize ys"
    by (cases t) auto
  have "matchHere p prev (x # xs) = matchHere p prev' (y # ys)"
    using matchHere_case[of prev prev' "x # xs" "y # ys" p] Cons.prems t by simp
  moreover have "searchFrom p (Some x) xs = searchFrom p (Some y) ys"
    using Cons.IH[of "Some x" "Some y" ys] t by simp
  ultimately show ?case using t by simp
qed

lemma regex_test_case: "sameUpToCase s t \<Longrightarrow> regex_test p s = regex_test p t"
  unfolding regex_test_def sameUpToCase_def using searchFrom_case[of None None s t p] by simp

lemma anyPatternMatches_case:
  "sameUpToCase s t \<Longrightarrow> anyPatternMatches ps s = anyPatternMatches ps t"
  by (induction ps) (auto dest: regex_test_case)

lemma delete_is_dangerous: "anyPatternMatches DANGEROUS_PATTERNS ''Delete all the old files''"
  by (simp add: DANGEROUS_PATTERNS_def lit_def regex_test_def isBoundary_def isWordChar_def
        canonicalize_def isWhiteSpace_def)

lemma force_is_dangerous: "anyPatternMatches DANGEROUS_PATTERNS ''Run git push --force''"
  by (simp add: DANGEROUS_PATTERNS_def lit_def regex_test_def isBoundary_def isWordChar_def
        canonicalize_def isWhiteSpace_def)

text \<open>
  C2. \<^verbatim>\<open>classifyAction\<close> follows the priority order: a dangerous pattern in the prompt
  gives dangerous whatever the agent; otherwise an agent of the dangerous set gives
  dangerous; otherwise an agent of the significant set gives significant; otherwise a
  significant pattern gives significant; otherwise the result is routine, for an agent of
  the routine set and for an unknown agent alike. The prompts "Delete all the old files"
  and "Run git push --force" are dangerous for every agent, and the result does not depend
  on the case of the letters of the prompt.
\<close>

theorem classifyAction_priority:
  "classifyAction tsk registry =
     (if (\<exists>p\<in>set DANGEROUS_PATTERNS. regex_test p (prompt (payload tsk))) then ''dangerous''
      else if agent_id (payload tsk) \<in> DANGEROUS_AGENTS then ''dangerous''
      else if agent_id (payload tsk) \<in> SIGNIFICANT_AGENTS then ''significant''
      else if (\<exists>p\<in>set SIGNIFICANT_PATTERNS. regex_test p (prompt (payload tsk))) then ''significant''
      else if agent_id (payload tsk) \<in> ROUTINE_AGENTS then ''routine''
      else ''routine'')
   \<and> (\<forall>agent. classifyAction (createTaskMessage agent ''Delete all the old files'') registry = ''dangerous'')
   \<and> (\<forall>agent. classifyAction (createTaskMessage agent ''Run git push --force'') registry = ''dangerous'')
   \<and> (\<forall>tsk'. agent_id (payload tsk') = agent_id (payload tsk)
          \<and> sameUpToCase (prompt (payload tsk')) (prompt (payload tsk))
          \<longrightarrow> classifyAction tsk' registry = classifyAction tsk registry)"
proof (intro conjI allI impI)
  show "classifyAction tsk registry =
     (if (\<exists>p\<in>set DANGEROUS_PATTERNS. regex_test p (prompt (payload tsk))) then ''dangerous''
      else if agent_id (payload tsk) \<in> DANGEROUS_AGENTS then ''dangerous''
      else if agent_id (payload tsk) \<in> SIGNIFICANT_AGENTS then ''significant''
      else if (\<exists>p\<in>set SIGNIFICANT_PATTERNS. regex_test p (prompt (payload tsk))) then ''significant''
      else if agent_id (payload tsk) \<in> ROUTINE_AGENTS then ''routine''
      else ''routine'')"
    by (simp add: classifyAction_def anyPatternMatches_iff)
next
  fix agent
  show "classifyAction (createTaskMessage agent ''Delete all the old files'') registry = ''dangerous''"
    using delete_is_dangerous by (simp add: classifyAction_def createTaskMessage_def)
next
  fix agent
  show "classifyAction (createTaskMessage agent ''Run git push --force'') registry = ''dangerous''"
    using force_is_dangerous by (simp add: classifyAction_def createTaskMessage_def)
next
  fix tsk' :: TaskMessage
  assume "agent_id (payload tsk') = agent_id (payload tsk)
          \<and> sameUpToCase (prompt (payload tsk')) (prompt (payload tsk))"
  then show "classifyAction tsk' registry = classifyAction tsk registry"
    using anyPatternMatches_case[of "prompt (payload tsk')" "prompt (payload tsk)" DANGEROUS_PATTERNS]
      anyPatternMatches_case[of "prompt (payload tsk')" "prompt (payload tsk)" SIGNIFICANT_PATTERNS]
    by (simp add: classifyAction_def Let_def)
qed

theorem classifyAction_priority_witness:
  "agent_id (payload (createTaskMessage ''researcher'' ''DELETE ALL THE OLD FILES''))
     = agent_id (payload (createTaskMessage ''researcher'' ''Delete all the old files''))
   \<and> sameUpToCase (prompt (payload (createTaskMessage ''researcher'' ''DELETE ALL THE OLD FILES'')))
        (prompt (payload (createTaskMessage ''researcher'' ''Delete all the old files'')))
   \<and> ''researcher'' \<in> ROUTINE_AGENTS
   \<and> classifyAction (createTaskMessage ''researcher'' ''DELETE ALL THE OLD FILES'') ([] :: (string \<times> unit) list)
       = ''dangerous''"
proof -
  have a: "agent_id (payload (createTaskMessage ''researcher'' ''DELETE ALL THE OLD FILES''))
     = agent_id (payload (createTaskMessage ''researcher'' ''Delete all the old files''))"
    by (simp add: createTaskMessage_def)
  have b: "sameUpToCase (prompt (payload (createTaskMessage ''researcher'' ''DELETE ALL THE OLD FILES'')))
        (prompt (payload (createTaskMessage ''researcher'' ''Delete all the old files'')))"
    by (simp add: createTaskMessage_def sameUpToCase_def canonicalize_def)
  have c: "''researcher'' \<in> ROUTINE_AGENTS" by (simp add: ROUTINE_AGENTS_def)
  note th = classifyAction_priority
         [of "createTaskMessage ''researcher'' ''Delete all the old files''" "[] :: (string \<times> unit) list"]
  have d: "classifyAction (createTaskMessage ''researcher'' ''Delete all the old files'') ([] :: (string \<times> unit) list)
          = ''dangerous''"
    using th[THEN conjunct2, THEN conjunct1, rule_format, of "''researcher''"] .
  have "classifyAction (createTaskMessage ''researcher'' ''DELETE ALL THE OLD FILES'') ([] :: (string \<times> unit) list)
          = classifyAction (createTaskMessage ''researcher'' ''Delete all the old files'') ([] :: (string \<times> unit) list)"
    using th[THEN conjunct2, THEN conjunct2, THEN conjunct2, rule_format, OF conjI[OF a b]] .
  with a b c d show ?thesis by simp
qed

text \<open>
  C10. The result of \<^verbatim>\<open>classifyAction\<close> does not depend on the registry: any two
  registries give the same classification, which is a function of the agent id and the
  prompt of the task alone.
\<close>

theorem classifyAction_ignores_registry:
  "classifyAction tsk (r1 :: (string \<times> 'a) list) = classifyAction tsk (r2 :: (string \<times> 'b) list)
   \<and> (agent_id (payload tsk) = agent_id (payload tsk') \<and> prompt (payload tsk) = prompt (payload tsk')
        \<longrightarrow> classifyAction tsk r1 = classifyAction tsk' r2)"
  by (simp add: classifyAction_def)

theorem classifyAction_ignores_registry_witness:
  "agent_id (payload (createTaskMessage ''coder'' ''look'')) = agent_id (payload (createTaskMessage ''coder'' ''look''))
   \<and> classifyAction (createTaskMessage ''coder'' ''look'') ([] :: (string \<times> unit) list)
       = classifyAction (createTaskMessage ''coder'' ''look'') [(''coder'', True), (''researcher'', False)]"
  using classifyAction_ignores_registry
          [of "createTaskMessage ''coder'' ''look''" "[] :: (string \<times> unit) list"
              "[(''coder'', True), (''researcher'', False)]" "createTaskMessage ''coder'' ''look''"]
  by simp


section \<open>The pre-dispatch gate\<close>

lemma escalation_embeds:
  "sublist (agent_id (payload (task ctx))) (esc_context e)
   \<and> sublist (classification ctx) (esc_context e)
   \<and> sublist (autonomyLevel ctx) (esc_context e)
   \<and> sublist (prompt (payload (task ctx))) (esc_context e)"
  if "payload (createApprovalEscalation ctx now) = Escalation e"
proof -
  let ?a = "agent_id (payload (task ctx))" and ?c = "classification ctx"
  let ?l = "autonomyLevel ctx" and ?p = "prompt (payload (task ctx))"
  let ?A = "''**Target Agent**: ''" and ?B = "''\<newline>**Action Type**: ''"
  let ?C = "''\<newline>**Autonomy Level**: ''" and ?D = "''\<newline>\<newline>**Task Prompt**:\<newline>''"
  let ?E = "''\<newline>\<newline>This action requires user approval under the current autonomy settings.''"
  have ctxt: "esc_context e = ?A @ ?a @ ?B @ ?c @ ?C @ ?l @ ?D @ ?p @ ?E"
    using that by (auto simp: createApprovalEscalation_def)
  have "esc_context e = ?A @ ?a @ (?B @ ?c @ ?C @ ?l @ ?D @ ?p @ ?E)"
    using ctxt by simp
  then have 1: "sublist ?a (esc_context e)" by (metis sublist_appendI)
  have "esc_context e = (?A @ ?a @ ?B) @ ?c @ (?C @ ?l @ ?D @ ?p @ ?E)"
    using ctxt by simp
  then have 2: "sublist ?c (esc_context e)" by (metis sublist_appendI)
  have "esc_context e = (?A @ ?a @ ?B @ ?c @ ?C) @ ?l @ (?D @ ?p @ ?E)"
    using ctxt by simp
  then have 3: "sublist ?l (esc_context e)" by (metis sublist_appendI)
  have "esc_context e = (?A @ ?a @ ?B @ ?c @ ?C @ ?l @ ?D) @ ?p @ ?E"
    using ctxt by simp
  then have 4: "sublist ?p (esc_context e)" by (metis sublist_appendI)
  from 1 2 3 4 show ?thesis by simp
qed

text \<open>
  C7. For every gate context whose decision is \<^verbatim>\<open>require_approval\<close>, and for every
  decision that is none of the three, \<^verbatim>\<open>enforcePreDispatchGate\<close> does not allow the
  dispatch and answers with an escalation whose \<^verbatim>\<open>decision_id\<close> is "approval-" followed
  by the session id of the task, whose options are Approve, Reject, Approve All (switch to
  autonomous) in this order, and whose context contains the target agent, the
  classification, the autonomy level and the prompt of the task. The dispatch is allowed
  only when the decision is \<^verbatim>\<open>proceed\<close>.
\<close>

theorem enforcePreDispatchGate_approval:
  "(decision ctx = ''require_approval'' \<or> decision ctx \<notin> set DECISIONS \<longrightarrow>
      (\<exists>env e. enforcePreDispatchGate ctx uuid now = NotAllowed env
         \<and> \<not> allowed (enforcePreDispatchGate ctx uuid now)
         \<and> payload env = Escalation e
         \<and> msg_type env = ''escalation''
         \<and> decision_id e = ''approval-'' @ session_id (task ctx)
         \<and> options e =
             [\<lparr>opt_label = ''Approve'', opt_value = ''approve''\<rparr>,
              \<lparr>opt_label = ''Reject'', opt_value = ''reject''\<rparr>,
              \<lparr>opt_label = ''Approve All (switch to autonomous)'', opt_value = ''approve_all''\<rparr>]
         \<and> sublist (agent_id (payload (task ctx))) (esc_context e)
         \<and> sublist (classification ctx) (esc_context e)
         \<and> sublist (autonomyLevel ctx) (esc_context e)
         \<and> sublist (prompt (payload (task ctx))) (esc_context e)))
   \<and> (allowed (enforcePreDispatchGate ctx uuid now) \<longrightarrow> decision ctx = ''proceed'')"
proof (intro conjI impI)
  assume d: "decision ctx = ''require_approval'' \<or> decision ctx \<notin> set DECISIONS"
  then have r: "enforcePreDispatchGate ctx uuid now = NotAllowed (createApprovalEscalation ctx now)"
    by (auto simp: enforcePreDispatchGate_def DECISIONS_def)
  obtain e where e: "payload (createApprovalEscalation ctx now) = Escalation e"
    by (simp add: createApprovalEscalation_def)
  have ids: "decision_id e = ''approval-'' @ session_id (task ctx)" "options e = approvalOptions"
    using e by (auto simp: createApprovalEscalation_def)
  show "\<exists>env e. enforcePreDispatchGate ctx uuid now = NotAllowed env
         \<and> \<not> allowed (enforcePreDispatchGate ctx uuid now)
         \<and> payload env = Escalation e
         \<and> msg_type env = ''escalation''
         \<and> decision_id e = ''approval-'' @ session_id (task ctx)
         \<and> options e =
             [\<lparr>opt_label = ''Approve'', opt_value = ''approve''\<rparr>,
              \<lparr>opt_label = ''Reject'', opt_value = ''reject''\<rparr>,
              \<lparr>opt_label = ''Approve All (switch to autonomous)'', opt_value = ''approve_all''\<rparr>]
         \<and> sublist (agent_id (payload (task ctx))) (esc_context e)
         \<and> sublist (classification ctx) (esc_context e)
         \<and> sublist (autonomyLevel ctx) (esc_context e)
         \<and> sublist (prompt (payload (task ctx))) (esc_context e)"
    using r e ids escalation_embeds[OF e]
    by (intro exI[of _ "createApprovalEscalation ctx now"] exI[of _ e])
       (simp add: msg_type_def approvalOptions_def)
next
  assume "allowed (enforcePreDispatchGate ctx uuid now)"
  then show "decision ctx = ''proceed''"
    by (auto simp: enforcePreDispatchGate_def split: if_splits)
qed

theorem enforcePreDispatchGate_approval_witness:
  "decision (createGateContext ''supervised'' ''significant'' ''unknown'') \<notin> set DECISIONS
   \<and> \<not> allowed (enforcePreDispatchGate (createGateContext ''supervised'' ''significant'' ''unknown'') ''u'' ''2024-01-01T00:00:00.000Z'')
   \<and> (\<exists>env e. enforcePreDispatchGate (createGateContext ''supervised'' ''significant'' ''unknown'') ''u'' ''2024-01-01T00:00:00.000Z'' = NotAllowed env
         \<and> payload env = Escalation e
         \<and> decision_id e = ''approval-550e8400-e29b-41d4-a716-446655440000''
         \<and> sublist ''Write some code'' (esc_context e))
   \<and> allowed (enforcePreDispatchGate (createGateContext ''supervised'' ''significant'' ''proceed'') ''u'' ''2024-01-01T00:00:00.000Z'')
   \<and> decision (createGateContext ''supervised'' ''significant'' ''proceed'') = ''proceed''"
proof -
  have d: "decision (createGateContext ''supervised'' ''significant'' ''unknown'') \<notin> set DECISIONS"
    by (simp add: createGateContext_def DECISIONS_def)
  have a: "allowed (enforcePreDispatchGate (createGateContext ''supervised'' ''significant'' ''proceed'') ''u'' ''2024-01-01T00:00:00.000Z'')"
    by (simp add: createGateContext_def enforcePreDispatchGate_def)
  note th = enforcePreDispatchGate_approval[of "createGateContext ''supervised'' ''significant'' ''unknown''" "''u''" "''2024-01-01T00:00:00.000Z''"]
  note th' = enforcePreDispatchGate_approval[of "createGateContext ''supervised'' ''significant'' ''proceed''" "''u''" "''2024-01-01T00:00:00.000Z''"]
  from th d obtain env e where
    "enforcePreDispatchGate (createGateContext ''supervised'' ''significant'' ''unknown'') ''u'' ''2024-01-01T00:00:00.000Z'' = NotAllowed env"
    "\<not> allowed (enforcePreDispatchGate (createGateContext ''supervised'' ''significant'' ''unknown'') ''u'' ''2024-01-01T00:00:00.000Z'')"
    "payload env = Escalation e"
    "decision_id e = ''approval-'' @ session_id (task (createGateContext ''supervised'' ''significant'' ''unknown''))"
    "sublist (prompt (payload (task (createGateContext ''supervised'' ''significant'' ''unknown'')))) (esc_context e)"
    by blast
  moreover have "session_id (task (createGateContext ''supervised'' ''significant'' ''unknown'')) = ''550e8400-e29b-41d4-a716-446655440000''"
    "prompt (payload (task (createGateContext ''supervised'' ''significant'' ''unknown''))) = ''Write some code''"
    by (simp_all add: createGateContext_def createTaskMessage_def)
  moreover have "decision (createGateContext ''supervised'' ''significant'' ''proceed'') = ''proceed''" using th' a by blast
  ultimately show ?thesis using d a by auto
qed

text \<open>
  C6, as amended. The failure and the escalation that the gate builds carry a
  \<^verbatim>\<open>session_id\<close> beside type, timestamp and payload: the blocked failure the fresh
  UUID, the escalation (for \<^verbatim>\<open>require_approval\<close> and for every decision that is none of
  the three) the session id of the task.
\<close>

theorem gate_envelopes_session_id:
  "(decision ctx = ''block'' \<longrightarrow>
      (\<exists>env fp. enforcePreDispatchGate ctx uuid now = NotAllowed env
         \<and> msg_type env = ''failure'' \<and> payload env = Failure fp \<and> code fp = AUTONOMY_BLOCKED
         \<and> session_id env = Some uuid \<and> timestamp env = now))
   \<and> (decision ctx \<noteq> ''proceed'' \<and> decision ctx \<noteq> ''block'' \<longrightarrow>
      (\<exists>env. enforcePreDispatchGate ctx uuid now = NotAllowed env
         \<and> msg_type env = ''escalation''
         \<and> session_id env = Some (session_id (task ctx)) \<and> timestamp env = now))"
  by (simp add: enforcePreDispatchGate_def createBlockedFailure_def createApprovalEscalation_def
        msg_type_def)

theorem gate_envelopes_session_id_witness:
  "decision (createGateContext ''supervised'' ''dangerous'' ''block'') = ''block''
   \<and> (\<exists>env. enforcePreDispatchGate (createGateContext ''supervised'' ''dangerous'' ''block'')
               ''1b9d6bcd-bbfd-4b2d-9b5d-ab8dfbbd4bed'' ''2024-01-01T00:00:00.000Z'' = NotAllowed env
          \<and> msg_type env = ''failure''
          \<and> session_id env = Some ''1b9d6bcd-bbfd-4b2d-9b5d-ab8dfbbd4bed'')
   \<and> decision (createGateContext ''supervised'' ''significant'' ''require_approval'') \<noteq> ''proceed''
   \<and> decision (createGateContext ''supervised'' ''significant'' ''require_approval'') \<noteq> ''block''
   \<and> (\<exists>env. enforcePreDispatchGate (createGateContext ''supervised'' ''significant'' ''require_approval'')
               ''1b9d6bcd-bbfd-4b2d-9b5d-ab8dfbbd4bed'' ''2024-01-01T00:00:00.000Z'' = NotAllowed env
          \<and> msg_type env = ''escalation''
          \<and> session_id env = Some ''550e8400-e29b-41d4-a716-446655440000'')"
proof -
  let ?b = "createGateContext ''supervised'' ''dangerous'' ''block''"
  let ?a = "createGateContext ''supervised'' ''significant'' ''require_approval''"
  have db: "decision ?b = ''block''" by (simp add: createGateContext_def)
  have da: "decision ?a \<noteq> ''proceed'' \<and> decision ?a \<noteq> ''block''" by (simp add: createGateContext_def)
  have sa: "session_id (task ?a) = ''550e8400-e29b-41d4-a716-446655440000''"
    by (simp add: createGateContext_def createTaskMessage_def)
  from gate_envelopes_session_id
         [of ?b "''1b9d6bcd-bbfd-4b2d-9b5d-ab8dfbbd4bed''" "''2024-01-01T00:00:00.000Z''",
          THEN conjunct1, rule_format, OF db]
  have 1: "\<exists>env. enforcePreDispatchGate ?b
               ''1b9d6bcd-bbfd-4b2d-9b5d-ab8dfbbd4bed'' ''2024-01-01T00:00:00.000Z'' = NotAllowed env
          \<and> msg_type env = ''failure''
          \<and> session_id env = Some ''1b9d6bcd-bbfd-4b2d-9b5d-ab8dfbbd4bed''"
    by blast
  from gate_envelopes_session_id
         [of ?a "''1b9d6bcd-bbfd-4b2d-9b5d-ab8dfbbd4bed''" "''2024-01-01T00:00:00.000Z''",
          THEN conjunct2, rule_format, OF da]
  have 2: "\<exists>env. enforcePreDispatchGate ?a
               ''1b9d6bcd-bbfd-4b2d-9b5d-ab8dfbbd4bed'' ''2024-01-01T00:00:00.000Z'' = NotAllowed env
          \<and> msg_type env = ''escalation''
          \<and> session_id env = Some ''550e8400-e29b-41d4-a716-446655440000''"
    using sa by auto
  from db da 1 2 show ?thesis by blast
qed

text \<open>
  C6 as stated (the envelopes of the gate have no \<^verbatim>\<open>session_id\<close>) fails on the
  contexts of the gate tests, for the blocked failure and for the escalation.
\<close>

theorem gate_session_id_counterexample:
  "session_id (response (enforcePreDispatchGate (createGateContext ''supervised'' ''dangerous'' ''block'')
       ''1b9d6bcd-bbfd-4b2d-9b5d-ab8dfbbd4bed'' ''2024-01-01T00:00:00.000Z'')) \<noteq> None
   \<and> msg_type (response (enforcePreDispatchGate (createGateContext ''supervised'' ''dangerous'' ''block'')
       ''1b9d6bcd-bbfd-4b2d-9b5d-ab8dfbbd4bed'' ''2024-01-01T00:00:00.000Z'')) = ''failure''
   \<and> session_id (response (enforcePreDispatchGate (createGateContext ''supervised'' ''significant'' ''require_approval'')
       ''1b9d6bcd-bbfd-4b2d-9b5d-ab8dfbbd4bed'' ''2024-01-01T00:00:00.000Z'')) \<noteq> None
   \<and> msg_type (response (enforcePreDispatchGate (createGateContext ''supervised'' ''significant'' ''require_approval'')
       ''1b9d6bcd-bbfd-4b2d-9b5d-ab8dfbbd4bed'' ''2024-01-01T00:00:00.000Z'')) = ''escalation''"
  by (simp add: createGateContext_def enforcePreDispatchGate_def createBlockedFailure_def
        createApprovalEscalation_def createTaskMessage_def msg_type_def)

section \<open>The retry executor\<close>

lemma retryLoop_stops:
  assumes "code (payload fl) \<in> NON_RETRYABLE_ERROR_CODES \<or> lvl = ''supervised''"
  shows "retryLoop lvl m executor fl n w = (Inr (toEnvelope fl), w)"
  using assms by (subst retryLoop.simps) (auto simp: shouldAutoRetry_def Let_def)

text \<open>
  C4. When the code of the initial failure is one of \<^verbatim>\<open>UNKNOWN_AGENT\<close>,
  \<^verbatim>\<open>SESSION_NOT_FOUND\<close>, \<^verbatim>\<open>AUTONOMY_BLOCKED\<close>, \<^verbatim>\<open>APPROVAL_REQUIRED\<close>, or the level is
  supervised, \<^verbatim>\<open>executeWithRetry\<close> returns the initial failure unchanged and leaves the
  world as it was, for every \<^verbatim>\<open>maxRetries\<close> and every executor; the call counter of the
  executor stays at zero.
\<close>

theorem executeWithRetry_never_retries:
  "code (payload fl) \<in> {UNKNOWN_AGENT, SESSION_NOT_FOUND, AUTONOMY_BLOCKED, APPROVAL_REQUIRED}
     \<or> lvl = ''supervised''
   \<Longrightarrow> executeWithRetry fl lvl m executor w = (Inr (toEnvelope fl), w)
       \<and> executeWithRetry fl lvl m (counted executor) (0, w) = (Inr (toEnvelope fl), (0, w))"
  unfolding executeWithRetry_def
  using retryLoop_stops[of fl lvl m executor 0 w] retryLoop_stops[of fl lvl m "counted executor" 0 "(0, w)"]
  by (simp add: NON_RETRYABLE_ERROR_CODES_def)

theorem executeWithRetry_never_retries_witness:
  "code (payload (createFailure UNKNOWN_AGENT ''Test failure''))
      \<in> {UNKNOWN_AGENT, SESSION_NOT_FOUND, AUTONOMY_BLOCKED, APPROVAL_REQUIRED}
   \<and> executeWithRetry (createFailure UNKNOWN_AGENT ''Test failure'') ''assisted'' 2
        (counted (failingExecutor 0)) (0, 0)
      = (Inr (toEnvelope (createFailure UNKNOWN_AGENT ''Test failure'')), (0, 0))
   \<and> executeWithRetry (createFailure AGENT_ERROR ''Test failure'') ''supervised'' 2
        (counted (failingExecutor 0)) (0, 0)
      = (Inr (toEnvelope (createFailure AGENT_ERROR ''Test failure'')), (0, 0))"
proof -
  have c: "code (payload (createFailure UNKNOWN_AGENT ''Test failure''))
      \<in> {UNKNOWN_AGENT, SESSION_NOT_FOUND, AUTONOMY_BLOCKED, APPROVAL_REQUIRED}"
    by (simp add: createFailure_def)
  show ?thesis
    using c
      executeWithRetry_never_retries
        [of "createFailure UNKNOWN_AGENT ''Test failure''" "''assisted''" 2 "failingExecutor 0" 0]
      executeWithRetry_never_retries
        [of "createFailure AGENT_ERROR ''Test failure''" "''supervised''" 2 "failingExecutor 0" 0]
    by simp
qed

lemma retryLoop_failingExecutor:
  assumes lvl: "lvl = ''assisted'' \<or> lvl = ''autonomous''"
  shows "code (payload cur) \<in> RETRYABLE_ERROR_CODES \<Longrightarrow> c \<le> k \<Longrightarrow> n + int (k - c) < m
    \<Longrightarrow> retryLoop lvl m (failingExecutor k) cur n c = (Inr (createResult ''Final success''), Suc k)"
proof (induction "k - c" arbitrary: c n cur)
  case 0
  then have ck: "c = k" and nm: "n < m" by auto
  have retry: "shouldRetry (shouldAutoRetry
      \<lparr>failure = cur, rc_autonomyLevel = lvl, attempts = n, rc_maxRetries = m\<rparr>)"
    using lvl nm 0(2) by (auto simp: shouldAutoRetry_def Let_def RETRYABLE_ERROR_CODES_def NON_RETRYABLE_ERROR_CODES_def)
  show ?case
    using nm retry ck
    by (subst retryLoop.simps) (simp add: failingExecutor_def createResult_def)
next
  case (Suc d)
  then have ck: "Suc c \<le> k" and nm: "n < m" by auto
  have retry: "shouldRetry (shouldAutoRetry
      \<lparr>failure = cur, rc_autonomyLevel = lvl, attempts = n, rc_maxRetries = m\<rparr>)"
    using lvl nm Suc(3) by (auto simp: shouldAutoRetry_def Let_def RETRYABLE_ERROR_CODES_def NON_RETRYABLE_ERROR_CODES_def)
  let ?next = "createFailure AGENT_ERROR (''Attempt '' @ showNat (Suc c) @ '' failed'')"
  have ex: "failingExecutor k c = (Inr (toEnvelope ?next), Suc c)"
    using ck by (simp add: failingExecutor_def)
  have IH: "retryLoop lvl m (failingExecutor k) ?next (n + 1) (Suc c)
              = (Inr (createResult ''Final success''), Suc k)"
  proof (rule Suc(1))
    show "d = k - Suc c" using Suc(2) by simp
    show "code (payload ?next) \<in> RETRYABLE_ERROR_CODES"
      by (simp add: createFailure_def RETRYABLE_ERROR_CODES_def)
    show "Suc c \<le> k" by (rule ck)
    show "n + 1 + int (k - Suc c) < m" using Suc(2,5) by simp
  qed
  have step: "retryLoop lvl m (failingExecutor k) cur n c
               = retryLoop lvl m (failingExecutor k) ?next (n + 1) (Suc c)"
    using nm retry ex
    by (subst retryLoop.simps) (simp add: toEnvelope_def createFailure_def)
  show ?case using step IH by simp
qed

lemma shouldAutoRetry_assisted:
  "n < m \<Longrightarrow> code (payload cur) \<in> RETRYABLE_ERROR_CODES \<Longrightarrow>
   shouldRetry (shouldAutoRetry \<lparr>failure = cur, rc_autonomyLevel = ''assisted'', attempts = n, rc_maxRetries = m\<rparr>)"
  by (auto simp: shouldAutoRetry_def Let_def RETRYABLE_ERROR_CODES_def NON_RETRYABLE_ERROR_CODES_def)

lemma retryLoop_failure_step:
  assumes "n < m" and "code (payload cur) \<in> RETRYABLE_ERROR_CODES"
    and "executor w = (Inr f, w')" and "payload f = Failure p"
  shows "retryLoop ''assisted'' m executor cur n w
     = retryLoop ''assisted'' m executor \<lparr>session_id = session_id f, timestamp = timestamp f, payload = p\<rparr> (n + 1) w'"
  using assms shouldAutoRetry_assisted[of n m cur]
  by (subst retryLoop.simps) simp

lemma retryLoop_success_step:
  assumes "n < m" and "code (payload cur) \<in> RETRYABLE_ERROR_CODES"
    and "executor w = (Inr r, w')" and "msg_type r \<noteq> ''failure''"
  shows "retryLoop ''assisted'' m executor cur n w = (Inr r, w')"
  using assms shouldAutoRetry_assisted[of n m cur]
  by (subst retryLoop.simps) (auto simp: msg_type_def split: Payload.splits)

lemma counted_step: "executor w = (r, w') \<Longrightarrow> counted executor (c, w) = (r, (Suc c, w'))"
  by (simp add: counted_def)

text \<open>
  C5, as amended. Given an initial failure with a retryable code, the level assisted and
  \<^verbatim>\<open>maxRetries = 3\<close>, an executor that fails twice, each time returning a failure with
  a retryable code, and then succeeds is invoked exactly three times before
  \<^verbatim>\<open>executeWithRetry\<close> returns its success.
\<close>

theorem executeWithRetry_fails_then_succeeds:
  assumes "code (payload fl) \<in> {AGENT_ERROR, TIMEOUT, VALIDATION_ERROR}"
    and "executor w0 = (Inr f1, w1)" and "payload f1 = Failure p1"
    and "code p1 \<in> {AGENT_ERROR, TIMEOUT, VALIDATION_ERROR}"
    and "executor w1 = (Inr f2, w2)" and "payload f2 = Failure p2"
    and "code p2 \<in> {AGENT_ERROR, TIMEOUT, VALIDATION_ERROR}"
    and "executor w2 = (Inr r, w3)" and "msg_type r \<noteq> ''failure''"
  shows "executeWithRetry fl ''assisted'' 3 (counted executor) (0, w0) = (Inr r, (3, w3))"
proof -
  let ?c1 = "\<lparr>session_id = session_id f1, timestamp = timestamp f1, payload = p1\<rparr>"
  let ?c2 = "\<lparr>session_id = session_id f2, timestamp = timestamp f2, payload = p2\<rparr>"
  have "retryLoop ''assisted'' 3 (counted executor) fl 0 (0, w0)
        = retryLoop ''assisted'' 3 (counted executor) ?c1 (0 + 1) (Suc 0, w1)"
    using assms(1) by (intro retryLoop_failure_step counted_step assms(2,3))
                      (simp_all add: RETRYABLE_ERROR_CODES_def)
  also have "\<dots> = retryLoop ''assisted'' 3 (counted executor) ?c2 (0 + 1 + 1) (Suc (Suc 0), w2)"
    using assms(4) by (intro retryLoop_failure_step counted_step assms(5,6))
                      (simp_all add: RETRYABLE_ERROR_CODES_def)
  also have "\<dots> = (Inr r, (Suc (Suc (Suc 0)), w3))"
    using assms(7) by (intro retryLoop_success_step counted_step assms(8,9))
                      (simp_all add: RETRYABLE_ERROR_CODES_def)
  finally show ?thesis by (simp add: executeWithRetry_def numeral_3_eq_3)
qed

theorem executeWithRetry_fails_then_succeeds_witness:
  "code (payload (createFailure AGENT_ERROR ''Test failure'')) \<in> {AGENT_ERROR, TIMEOUT, VALIDATION_ERROR}
   \<and> failingExecutor 2 0 = (Inr (toEnvelope (createFailure AGENT_ERROR ''Attempt 1 failed'')), 1)
   \<and> failingExecutor 2 1 = (Inr (toEnvelope (createFailure AGENT_ERROR ''Attempt 2 failed'')), 2)
   \<and> failingExecutor 2 2 = (Inr (createResult ''Final success''), 3)
   \<and> msg_type (createResult ''Final success'') \<noteq> ''failure''
   \<and> executeWithRetry (createFailure AGENT_ERROR ''Test failure'') ''assisted'' 3
        (counted (failingExecutor 2)) (0, 0)
       = (Inr (createResult ''Final success''), (3, 3))"
proof -
  let ?f1 = "toEnvelope (createFailure AGENT_ERROR ''Attempt 1 failed'')"
  let ?f2 = "toEnvelope (createFailure AGENT_ERROR ''Attempt 2 failed'')"
  have c0: "code (payload (createFailure AGENT_ERROR ''Test failure'')) \<in> {AGENT_ERROR, TIMEOUT, VALIDATION_ERROR}"
    by (simp add: createFailure_def)
  have e1: "failingExecutor 2 0 = (Inr ?f1, 1)"
    by (simp add: failingExecutor_def digit_def)
  have p1: "payload ?f1 = Failure (payload (createFailure AGENT_ERROR ''Attempt 1 failed''))"
    by (simp add: toEnvelope_def)
  have c1: "code (payload (createFailure AGENT_ERROR ''Attempt 1 failed'')) \<in> {AGENT_ERROR, TIMEOUT, VALIDATION_ERROR}"
    by (simp add: createFailure_def)
  have e2: "failingExecutor 2 1 = (Inr ?f2, 2)"
    by (simp add: failingExecutor_def digit_def)
  have p2: "payload ?f2 = Failure (payload (createFailure AGENT_ERROR ''Attempt 2 failed''))"
    by (simp add: toEnvelope_def)
  have c2: "code (payload (createFailure AGENT_ERROR ''Attempt 2 failed'')) \<in> {AGENT_ERROR, TIMEOUT, VALIDATION_ERROR}"
    by (simp add: createFailure_def)
  have e3: "failingExecutor 2 2 = (Inr (createResult ''Final success''), 3)"
    by (simp add: failingExecutor_def)
  have ok: "msg_type (createResult ''Final success'') \<noteq> ''failure''"
    by (simp add: createResult_def msg_type_def)
  from executeWithRetry_fails_then_succeeds[OF c0 e1 p1 c1 e2 p2 c2 e3 ok]
  show ?thesis using c0 e1 e2 e3 ok by simp
qed

text \<open>
  C5 as stated (success after exactly two invocations of an executor that fails twice)
  fails on the fixture of the tests: the third invocation is the one that succeeds.
\<close>

theorem executeWithRetry_two_failures_counterexample:
  "fst (executeWithRetry (createFailure AGENT_ERROR ''Test failure'') ''assisted'' 3 (failingExecutor 2) 0)
     = Inr (createResult ''Final success'')
   \<and> snd (executeWithRetry (createFailure AGENT_ERROR ''Test failure'') ''assisted'' 3 (failingExecutor 2) 0) = 3
   \<and> snd (executeWithRetry (createFailure AGENT_ERROR ''Test failure'') ''assisted'' 3 (failingExecutor 2) 0) \<noteq> 2"
proof -
  have "executeWithRetry (createFailure AGENT_ERROR ''Test failure'') ''assisted'' 3 (failingExecutor 2) 0
          = (Inr (createResult ''Final success''), 3)"
    unfolding executeWithRetry_def
    using retryLoop_failingExecutor[of "''assisted''" "createFailure AGENT_ERROR ''Test failure''" 0 2 0 3]
    by (simp add: RETRYABLE_ERROR_CODES_def createFailure_def)
  then show ?thesis by simp
qed


section \<open>Validation with retry\<close>

lemma correctionLoop_all_invalid:
  assumes inv: "\<forall>p s. \<not> isValid (validateMessage v (fst (sender p s)))"
  shows "n \<le> m \<Longrightarrow>
    \<exists>err' s'. correctionLoop v uuid now agentId m (countedSender sender) err n (c, s)
       = (validationFailure uuid now agentId err', (c + nat (m - n), s'))"
proof (induction "nat (m - n)" arbitrary: n c s err)
  case 0
  then have "\<not> n < m" by simp
  then show ?case using 0 by (subst correctionLoop.simps) auto
next
  case (Suc d)
  then have nm: "n < m" by simp
  obtain raw s1 where snd: "sender (correctionPrompt v err) s = (raw, s1)"
    by (cases "sender (correctionPrompt v err) s")
  from inv have "\<not> isValid (validateMessage v (fst (sender (correctionPrompt v err) s)))"
    by blast
  then obtain e r where bad: "validateMessage v raw = Invalid e r"
    using snd by (cases "validateMessage v raw") auto
  have "\<exists>err' s'. correctionLoop v uuid now agentId m (countedSender sender) e (n + 1) (Suc c, s1)
       = (validationFailure uuid now agentId err', (Suc c + nat (m - (n + 1)), s'))"
  proof (rule Suc(1))
    show "d = nat (m - (n + 1))" using Suc(2) by simp
    show "n + 1 \<le> m" using nm by simp
  qed
  then obtain err' s' where rest:
    "correctionLoop v uuid now agentId m (countedSender sender) e (n + 1) (Suc c, s1)
       = (validationFailure uuid now agentId err', (Suc c + nat (m - (n + 1)), s'))"
    by blast
  have count: "Suc c + nat (m - (n + 1)) = c + nat (m - n)" using nm by simp
  have "correctionLoop v uuid now agentId m (countedSender sender) err n (c, s)
        = correctionLoop v uuid now agentId m (countedSender sender) e (n + 1) (Suc c, s1)"
    using nm snd bad
    by (subst correctionLoop.simps) (simp add: countedSender_def counted_def)
  with rest count show ?case by auto
qed

text \<open>
  C3, as amended. The budget \<^verbatim>\<open>maxRetries\<close> counts correction attempts only. An input
  that validates at the first attempt is returned parsed, with no call of the sender,
  whatever \<^verbatim>\<open>maxRetries\<close> is. When the input fails validation and is not wrapped as
  plain text (\<^verbatim>\<open>wrapPlainText\<close> is off, or the input is JSON), \<^verbatim>\<open>maxRetries\<close> is not
  negative and the sender answers every correction with invalid text, the sender is called
  exactly \<^verbatim>\<open>maxRetries\<close> times and the result is a failure with code
  \<^verbatim>\<open>VALIDATION_ERROR\<close>.
\<close>

theorem validateWithRetry_budget:
  "(validateMessage v raw = Valid msg \<longrightarrow>
      validateWithRetry v uuid now raw agentId config (Some (countedSender sender)) (0, s) = (msg, (0, s))
      \<and> validateWithRetry v uuid now raw agentId config None s = (msg, s))
   \<and> (\<not> isValid (validateMessage v raw)
        \<and> \<not> (wrapPlainText config \<and> parseJson v raw = None)
        \<and> 0 \<le> vc_maxRetries config
        \<and> (\<forall>p t. \<not> isValid (validateMessage v (fst (sender p t))))
      \<longrightarrow> (\<exists>env calls s' fp.
             validateWithRetry v uuid now raw agentId config (Some (countedSender sender)) (0, s)
               = (env, (calls, s'))
             \<and> int calls = vc_maxRetries config
             \<and> payload env = Failure fp \<and> msg_type env = ''failure'' \<and> code fp = VALIDATION_ERROR))"
proof (intro conjI impI)
  assume "validateMessage v raw = Valid msg"
  then show "validateWithRetry v uuid now raw agentId config (Some (countedSender sender)) (0, s) = (msg, (0, s))"
    and "validateWithRetry v uuid now raw agentId config None s = (msg, s)"
    by (simp_all add: validateWithRetry_def)
next
  assume h: "\<not> isValid (validateMessage v raw)
        \<and> \<not> (wrapPlainText config \<and> parseJson v raw = None)
        \<and> 0 \<le> vc_maxRetries config
        \<and> (\<forall>p t. \<not> isValid (validateMessage v (fst (sender p t))))"
  then obtain e r where bad: "validateMessage v raw = Invalid e r"
    by (cases "validateMessage v raw") auto
  from h have nowrap: "\<not> (wrapPlainText config \<and> parseJson v raw = None)"
    and m0: "0 \<le> vc_maxRetries config"
    and inv: "\<forall>p t. \<not> isValid (validateMessage v (fst (sender p t)))"
    by blast+
  have "\<exists>err' s'. validateWithRetry v uuid now raw agentId config (Some (countedSender sender)) (0, s)
          = (validationFailure uuid now agentId err', (nat (vc_maxRetries config), s'))"
  proof (cases "vc_maxRetries config \<le> 0")
    case True
    then have "vc_maxRetries config = 0" using m0 by simp
    then show ?thesis using bad nowrap by (auto simp: validateWithRetry_def)
  next
    case False
    from correctionLoop_all_invalid[OF inv, of 0 "vc_maxRetries config" uuid now agentId e 0 s] m0
    obtain err' s' where
      "correctionLoop v uuid now agentId (vc_maxRetries config) (countedSender sender) e 0 (0, s)
         = (validationFailure uuid now agentId err', (nat (vc_maxRetries config), s'))"
      by auto
    then show ?thesis using bad nowrap False by (auto simp: validateWithRetry_def)
  qed
  then obtain err' s' where res:
    "validateWithRetry v uuid now raw agentId config (Some (countedSender sender)) (0, s)
          = (validationFailure uuid now agentId err', (nat (vc_maxRetries config), s'))"
    by blast
  show "\<exists>env calls s' fp.
             validateWithRetry v uuid now raw agentId config (Some (countedSender sender)) (0, s)
               = (env, (calls, s'))
             \<and> int calls = vc_maxRetries config
             \<and> payload env = Failure fp \<and> msg_type env = ''failure'' \<and> code fp = VALIDATION_ERROR"
    using res m0
    by (intro exI[of _ "validationFailure uuid now agentId err'"] exI[of _ "nat (vc_maxRetries config)"]
              exI[of _ s']
              exI[of _ "\<lparr>fail_agent_id = Some agentId, code = VALIDATION_ERROR, message = err', cause = None\<rparr>"])
       (simp add: validationFailure_def msg_type_def)
qed

theorem validateWithRetry_budget_witness:
  "validateMessage bracesValidator ''{result}'' = Valid (createResult ''{result}'')
   \<and> validateWithRetry bracesValidator ''u'' ''t'' ''{result}'' ''coder''
         \<lparr>vc_maxRetries = 0, wrapPlainText = False\<rparr> (Some (countedSender stillInvalidSender)) (0, ())
       = (createResult ''{result}'', (0, ()))
   \<and> \<not> isValid (validateMessage bracesValidator ''{}'')
   \<and> \<not> (wrapPlainText \<lparr>vc_maxRetries = 2, wrapPlainText = True\<rparr>
          \<and> parseJson bracesValidator ''{}'' = None)
   \<and> 0 \<le> vc_maxRetries \<lparr>vc_maxRetries = 2, wrapPlainText = True\<rparr>
   \<and> (\<forall>p t. \<not> isValid (validateMessage bracesValidator (fst (stillInvalidSender p t))))
   \<and> (\<exists>env s' fp.
         validateWithRetry bracesValidator ''u'' ''t'' ''{}'' ''coder''
            \<lparr>vc_maxRetries = 2, wrapPlainText = True\<rparr> (Some (countedSender stillInvalidSender)) (0, ())
          = (env, (2, s'))
         \<and> payload env = Failure fp \<and> code fp = VALIDATION_ERROR)"
proof -
  have v: "validateMessage bracesValidator ''{result}'' = Valid (createResult ''{result}'')"
    by (simp add: validateMessage_def bracesValidator_def)
  have a: "\<not> isValid (validateMessage bracesValidator ''{}'')"
    by (simp add: validateMessage_def bracesValidator_def)
  have b: "\<not> (wrapPlainText \<lparr>vc_maxRetries = 2, wrapPlainText = True\<rparr>
          \<and> parseJson bracesValidator ''{}'' = None)"
    by (simp add: bracesValidator_def)
  have c: "0 \<le> vc_maxRetries \<lparr>vc_maxRetries = 2, wrapPlainText = True\<rparr>" by simp
  have d: "\<forall>p t. \<not> isValid (validateMessage bracesValidator (fst (stillInvalidSender p t)))"
    by (simp add: validateMessage_def bracesValidator_def stillInvalidSender_def)
  have first: "validateWithRetry bracesValidator ''u'' ''t'' ''{result}'' ''coder''
         \<lparr>vc_maxRetries = 0, wrapPlainText = False\<rparr> (Some (countedSender stillInvalidSender)) (0, ())
       = (createResult ''{result}'', (0, ()))"
    using validateWithRetry_budget
         [of bracesValidator "''{result}''" "createResult ''{result}''" "''u''" "''t''" "''coder''"
             "\<lparr>vc_maxRetries = 0, wrapPlainText = False\<rparr>" stillInvalidSender "()"] v
    by blast
  from validateWithRetry_budget
         [of bracesValidator "''{}''" "createResult ''{result}''" "''u''" "''t''" "''coder''"
             "\<lparr>vc_maxRetries = 2, wrapPlainText = True\<rparr>" stillInvalidSender "()",
          THEN conjunct2, rule_format, OF conjI[OF a conjI[OF b conjI[OF c d]]]]
  obtain env calls s' fp where
    "validateWithRetry bracesValidator ''u'' ''t'' ''{}'' ''coder''
            \<lparr>vc_maxRetries = 2, wrapPlainText = True\<rparr> (Some (countedSender stillInvalidSender)) (0, ())
          = (env, (calls, s'))"
    "int calls = vc_maxRetries \<lparr>vc_maxRetries = 2, wrapPlainText = True\<rparr>"
    "payload env = Failure fp" "code fp = VALIDATION_ERROR"
    by blast
  moreover then have "calls = 2" by simp
  ultimately show ?thesis using v first a b c d by blast
qed

text \<open>
  C3 as stated (every sender that always returns invalid output is called exactly
  \<^verbatim>\<open>maxRetries\<close> times and the result is a failure) fails when \<^verbatim>\<open>wrapPlainText\<close> is on
  and the first text is not JSON: with \<^verbatim>\<open>maxRetries = 2\<close> the text is wrapped as a
  result and the sender is not called.
\<close>

theorem validateWithRetry_wrap_counterexample:
  "(\<forall>p t. \<not> isValid (validateMessage bracesValidator (fst (stillInvalidSender p t))))
   \<and> \<not> isValid (validateMessage bracesValidator ''Just a simple response'')
   \<and> validateWithRetry bracesValidator ''1b9d6bcd-bbfd-4b2d-9b5d-ab8dfbbd4bed'' ''2024-01-01T00:00:00.000Z''
        ''Just a simple response'' ''researcher'' \<lparr>vc_maxRetries = 2, wrapPlainText = True\<rparr>
        (Some (countedSender stillInvalidSender)) (0, ())
      = (wrapAsResultMessage ''1b9d6bcd-bbfd-4b2d-9b5d-ab8dfbbd4bed'' ''2024-01-01T00:00:00.000Z''
           ''Just a simple response'' ''researcher'', (0, ()))
   \<and> msg_type (wrapAsResultMessage ''1b9d6bcd-bbfd-4b2d-9b5d-ab8dfbbd4bed'' ''2024-01-01T00:00:00.000Z''
           ''Just a simple response'' ''researcher'') \<noteq> ''failure''
   \<and> (0::int) \<noteq> vc_maxRetries \<lparr>vc_maxRetries = 2, wrapPlainText = True\<rparr>"
  by (simp add: validateWithRetry_def validateMessage_def bracesValidator_def stillInvalidSender_def
        wrapAsResultMessage_def msg_type_def)

section \<open>The dispatcher\<close>

lemma executeDispatch_no_session:
  assumes "parent_session_id (payload tsk) = None"
    and "sessionCreate (client ctx) w = (Inr None, w1)"
  shows "executeDispatch rt tsk ctx w
    = (Inr (failureAt rt w1 SESSION_NOT_FOUND ''Failed to create session''
              (Some ''Session creation returned no ID'')), w1)"
  using assms by (simp add: executeDispatch_def io_bind_def io_return_def Let_def)

lemma dispatchBody_no_session:
  assumes "parent_session_id (payload tsk) = None"
    and "sessionCreate (client ctx) w = (Inr None, w1)"
  shows "dispatchBody rt tsk ctx cfg cls w
    = (Inr (stringify rt (failureAt rt w1 SESSION_NOT_FOUND ''Failed to create session''
              (Some ''Session creation returned no ID''))), w1)"
proof -
  let ?f = "failureAt rt w1 SESSION_NOT_FOUND ''Failed to create session''
              (Some ''Session creation returned no ID'')"
  let ?fp = "\<lparr>fail_agent_id = None, code = SESSION_NOT_FOUND, message = ''Failed to create session'',
               cause = Some ''Session creation returned no ID''\<rparr>"
  let ?fm = "\<lparr>session_id = session_id ?f, timestamp = timestamp ?f, payload = ?fp\<rparr>"
  have p: "payload ?f = Failure ?fp"
    by (simp add: failureAt_def createFailureMessage_def)
  have rebuilt: "toEnvelope ?fm = ?f"
    by (simp add: toEnvelope_def failureAt_def createFailureMessage_def)
  have "retryLoop (level cfg) (maxRetries cfg) (executeDispatch rt tsk ctx) ?fm 0 w1
          = (Inr (toEnvelope ?fm), w1)"
    by (rule retryLoop_stops) (simp add: NON_RETRYABLE_ERROR_CODES_def)
  then have "executeWithRetry ?fm (level cfg) (maxRetries cfg) (executeDispatch rt tsk ctx) w1 = (Inr ?f, w1)"
    using rebuilt by (simp add: executeWithRetry_def)
  then show ?thesis
    using executeDispatch_no_session[OF assms, of rt] p
    by (simp add: dispatchBody_def io_bind_def io_return_def transformResponse_def)
qed

lemma dispatchBody_serialises:
  "dispatchBody rt tsk ctx cfg cls w = (Inr out, w') \<Longrightarrow> \<exists>env. out = stringify rt env"
  by (auto simp: dispatchBody_def io_bind_def io_return_def split: prod.splits sum.splits Payload.splits)

lemma toEnvelope_failure: "msg_type (toEnvelope f) = ''failure''"
  by (simp add: toEnvelope_def msg_type_def)

lemma retryLoop_all_fail:
  "\<forall>w env w'. executor w = (Inr env, w') \<longrightarrow> msg_type env = ''failure''
   \<Longrightarrow> retryLoop lvl m executor cur n w = (Inr env, w') \<Longrightarrow> msg_type env = ''failure''"
proof (induction lvl m executor cur n w rule: retryLoop.induct)
  case (1 lvl m executor cur n w)
  show ?case
  proof (cases "n < m \<and> shouldRetry (shouldAutoRetry
               \<lparr>failure = cur, rc_autonomyLevel = lvl, attempts = n, rc_maxRetries = m\<rparr>)")
    case False
    then have "retryLoop lvl m executor cur n w = (Inr (toEnvelope cur), w)"
      by (subst retryLoop.simps) auto
    then show ?thesis using "1.prems"(2) toEnvelope_failure by auto
  next
    case True
    obtain r w1 where ex: "executor w = (r, w1)" by (cases "executor w")
    show ?thesis
    proof (cases r)
      case (Inl e)
      then have "retryLoop lvl m executor cur n w = (Inl e, w1)"
        using True ex by (subst retryLoop.simps) simp
      then show ?thesis using "1.prems"(2) by simp
    next
      case (Inr result)
      then have "msg_type result = ''failure''" using ex "1.prems"(1) by blast
      then obtain fp where fp: "payload result = Failure fp"
        by (cases "payload result") (auto simp: msg_type_def)
      have step: "retryLoop lvl m executor cur n w
            = retryLoop lvl m executor
                \<lparr>session_id = session_id result, timestamp = timestamp result, payload = fp\<rparr> (n + 1) w1"
        using True ex Inr fp by (subst retryLoop.simps) simp
      have "msg_type env = ''failure''"
      proof (rule "1.IH")
        show "n < m" using True by simp
        show "\<not> \<not> shouldRetry (shouldAutoRetry
               \<lparr>failure = cur, rc_autonomyLevel = lvl, attempts = n, rc_maxRetries = m\<rparr>)"
          using True by simp
        show "(r, w1) = executor w" using ex by simp
        show "r = Inr result" by (rule Inr)
        show "payload result = Failure fp" by (rule fp)
        show "\<forall>w env w'. executor w = (Inr env, w') \<longrightarrow> msg_type env = ''failure''"
          by (rule "1.prems"(1))
        show "retryLoop lvl m executor
                \<lparr>session_id = session_id result, timestamp = timestamp result, payload = fp\<rparr> (n + 1) w1
              = (Inr env, w')"
          using step "1.prems"(2) by simp
      qed
      then show ?thesis .
    qed
  qed
qed

lemma dispatchToAgent_invalid_message:
  "parseTaskMessage rt messageJson = None \<Longrightarrow>
   dispatchToAgent rt messageJson ctx w
     = (Inr (stringify rt (failureAt rt w VALIDATION_ERROR ''Invalid task message format''
               (Some ''Message must be a valid TaskMessage JSON envelope''))), w)"
  by (simp add: dispatchToAgent_def)

lemma dispatchToAgent_unknown_agent:
  "parseTaskMessage rt messageJson = Some tsk \<Longrightarrow> \<not> registryHas (agents ctx) (agent_id (payload tsk)) \<Longrightarrow>
   dispatchToAgent rt messageJson ctx w
     = (Inr (stringify rt (failureAt rt w UNKNOWN_AGENT
               (''Unknown agent: '' @ agent_id (payload tsk))
               (Some (''Available agents: '' @ joinWith '', '' (map fst (agents ctx)))))), w)"
  by (simp add: dispatchToAgent_def Let_def)

lemma dispatchToAgent_gate:
  assumes "parseTaskMessage rt messageJson = Some tsk"
    and "registryHas (agents ctx) (agent_id (payload tsk))"
    and "cfg = (case autonomyConfig ctx of None \<Rightarrow> DEFAULT_AUTONOMY_CONFIG | Some c \<Rightarrow> c)"
    and "cls = classifyAction tsk (agents ctx)"
  shows "dispatchToAgent rt messageJson ctx w =
     (case enforcePreDispatchGate
             \<lparr>task = tsk, autonomyLevel = level cfg, classification = cls,
              decision = determineGate (level cfg) cls\<rparr> (randomUUID rt w) (nowTimestamp rt w) of
        NotAllowed resp \<Rightarrow> (Inr (stringify rt resp), w)
      | Allowed \<Rightarrow>
          (case dispatchBody rt tsk ctx cfg cls w of
             (Inl err, w') \<Rightarrow> dispatchCatch rt ctx err w'
           | (Inr out, w') \<Rightarrow> (Inr out, w')))"
  using assms(1,2) unfolding assms(3,4) by (simp add: dispatchToAgent_def Let_def)

lemma dispatchToAgent_blocked:
  assumes "parseTaskMessage rt messageJson = Some tsk"
    and "registryHas (agents ctx) (agent_id (payload tsk))"
    and "cfg = (case autonomyConfig ctx of None \<Rightarrow> DEFAULT_AUTONOMY_CONFIG | Some c \<Rightarrow> c)"
    and "cls = classifyAction tsk (agents ctx)"
    and "determineGate (level cfg) cls = ''block''"
  shows "dispatchToAgent rt messageJson ctx w =
     (Inr (stringify rt (createBlockedFailure
             \<lparr>task = tsk, autonomyLevel = level cfg, classification = cls, decision = ''block''\<rparr>
             (randomUUID rt w) (nowTimestamp rt w))), w)"
  using dispatchToAgent_gate[OF assms(1-4), of w] assms(5)
  by (simp add: enforcePreDispatchGate_def)

lemma dispatchToAgent_allowed:
  assumes "parseTaskMessage rt messageJson = Some tsk"
    and "registryHas (agents ctx) (agent_id (payload tsk))"
    and "cfg = (case autonomyConfig ctx of None \<Rightarrow> DEFAULT_AUTONOMY_CONFIG | Some c \<Rightarrow> c)"
    and "cls = classifyAction tsk (agents ctx)"
    and "determineGate (level cfg) cls = ''proceed''"
  shows "dispatchToAgent rt messageJson ctx w =
     (case dispatchBody rt tsk ctx cfg cls w of
        (Inl err, w') \<Rightarrow> dispatchCatch rt ctx err w'
      | (Inr out, w') \<Rightarrow> (Inr out, w'))"
  using dispatchToAgent_gate[OF assms(1-4), of w] assms(5)
  by (simp add: enforcePreDispatchGate_def)

lemma dispatchToAgent_caught:
  assumes "parseTaskMessage rt messageJson = Some tsk"
    and "registryHas (agents ctx) (agent_id (payload tsk))"
    and "cfg = (case autonomyConfig ctx of None \<Rightarrow> DEFAULT_AUTONOMY_CONFIG | Some c \<Rightarrow> c)"
    and "cls = classifyAction tsk (agents ctx)"
    and "determineGate (level cfg) cls = ''proceed''"
    and "dispatchBody rt tsk ctx cfg cls w = (Inl err, w')"
  shows "dispatchToAgent rt messageJson ctx w =
     (if (case abort ctx of None \<Rightarrow> False | Some aborted \<Rightarrow> aborted w') then
        (Inr (stringify rt (failureAt rt w' TIMEOUT ''Request timed out or was cancelled'' None)), w')
      else
        (case errorText err of
           Inl e \<Rightarrow> (Inl e, w')
         | Inr text \<Rightarrow>
             (Inr (stringify rt (failureAt rt w' AGENT_ERROR ''Agent execution failed'' (Some text))), w')))"
  using dispatchToAgent_allowed[OF assms(1-5), of w] assms(6)
  by (simp add: dispatchCatch_def)

lemma dispatchToAgent_all_fail:
  assumes "parseTaskMessage rt messageJson = Some tsk"
    and "registryHas (agents ctx) (agent_id (payload tsk))"
    and "cfg = (case autonomyConfig ctx of None \<Rightarrow> DEFAULT_AUTONOMY_CONFIG | Some c \<Rightarrow> c)"
    and "cls = classifyAction tsk (agents ctx)"
    and "determineGate (level cfg) cls = ''proceed''"
    and fails: "\<forall>w env w'. executeDispatch rt tsk ctx w = (Inr env, w') \<longrightarrow> msg_type env = ''failure''"
    and "dispatchBody rt tsk ctx cfg cls w = (Inr out, w')"
  shows "\<exists>env. msg_type env = ''failure''
           \<and> dispatchToAgent rt messageJson ctx w = (Inr (stringify rt env), w')"
proof -
  obtain r w1 where first: "executeDispatch rt tsk ctx w = (r, w1)"
    by (cases "executeDispatch rt tsk ctx w")
  from assms(7) first obtain result where r: "r = Inr result"
    by (cases r) (auto simp: dispatchBody_def io_bind_def)
  then have "msg_type result = ''failure''" using fails first by blast
  then obtain fp where fp: "payload result = Failure fp"
    by (cases "payload result") (auto simp: msg_type_def)
  let ?cur = "\<lparr>session_id = session_id result, timestamp = timestamp result, payload = fp\<rparr>"
  obtain r2 w2 where second:
    "retryLoop (level cfg) (maxRetries cfg) (executeDispatch rt tsk ctx) ?cur 0 w1 = (r2, w2)"
    by (cases "retryLoop (level cfg) (maxRetries cfg) (executeDispatch rt tsk ctx) ?cur 0 w1")
  from assms(7) first r fp second obtain final where f: "r2 = Inr final"
    by (cases r2) (auto simp: dispatchBody_def io_bind_def executeWithRetry_def)
  have "msg_type final = ''failure''"
    using retryLoop_all_fail[OF fails] second f by blast
  moreover have "dispatchBody rt tsk ctx cfg cls w = (Inr (stringify rt final), w2)"
    using first r fp second f
    by (simp add: dispatchBody_def io_bind_def io_return_def executeWithRetry_def transformResponse_def)
  ultimately show ?thesis
    using dispatchToAgent_allowed[OF assms(1-5), of w] assms(7) by auto
qed

lemma executeDispatch_empty_response:
  assumes "parent_session_id (payload tsk) = Some sid" and "sid \<noteq> []"
    and "sessionPrompt (client ctx) sid (agent_id (payload tsk)) (prompt (payload tsk)) w = (Inr parts, w')"
    and "extractTextFromParts (case parts of None \<Rightarrow> [] | Some ps \<Rightarrow> ps) = []"
  shows "executeDispatch rt tsk ctx w
    = (Inr (failureAt rt w' AGENT_ERROR ''Agent returned empty response''
              (Some (''Agent '' @ agent_id (payload tsk) @ '' produced no text output''))), w')"
  using assms
  by (simp add: executeDispatch_def promptText_def io_bind_def io_return_def Let_def)

lemma dispatchToAgent_outcome:
  "(\<exists>env w'. dispatchToAgent rt messageJson ctx w = (Inr (stringify rt env), w'))
   \<or> (\<exists>err e w'. errorText err = Inl e \<and> dispatchToAgent rt messageJson ctx w = (Inl e, w'))"
proof (cases "parseTaskMessage rt messageJson")
  case None
  then show ?thesis using dispatchToAgent_invalid_message[of rt messageJson ctx w] by blast
next
  case (Some tsk)
  let ?cfg = "case autonomyConfig ctx of None \<Rightarrow> DEFAULT_AUTONOMY_CONFIG | Some c \<Rightarrow> c"
  let ?cls = "classifyAction tsk (agents ctx)"
  let ?gate = "enforcePreDispatchGate
        \<lparr>task = tsk, autonomyLevel = level ?cfg, classification = ?cls,
         decision = determineGate (level ?cfg) ?cls\<rparr> (randomUUID rt w) (nowTimestamp rt w)"
  show ?thesis
  proof (cases "registryHas (agents ctx) (agent_id (payload tsk))")
    case False
    then show ?thesis using dispatchToAgent_unknown_agent[OF Some, of ctx w] by blast
  next
    case True
    note gate = dispatchToAgent_gate[OF Some True refl refl, of w]
    show ?thesis
    proof (cases ?gate)
      case (NotAllowed resp)
      then show ?thesis using gate by auto
    next
      case Allowed
      obtain r w1 where body: "dispatchBody rt tsk ctx ?cfg ?cls w = (r, w1)"
        by (cases "dispatchBody rt tsk ctx ?cfg ?cls w")
      show ?thesis
      proof (cases r)
        case (Inl err)
        then have d: "dispatchToAgent rt messageJson ctx w = dispatchCatch rt ctx err w1"
          using gate Allowed body by simp
        show ?thesis
        proof (cases "errorText err")
          case (Inl e)
          then show ?thesis using d by (auto simp: dispatchCatch_def)
        next
          case (Inr msg)
          then show ?thesis using d by (auto simp: dispatchCatch_def)
        qed
      next
        case (Inr out)
        then have "dispatchBody rt tsk ctx ?cfg ?cls w = (Inr out, w1)" using body by simp
        then obtain env where "out = stringify rt env"
          using dispatchBody_serialises[of rt tsk ctx ?cfg ?cls w out w1] by blast
        then show ?thesis using gate Allowed body Inr by auto
      qed
    qed
  qed
qed

lemma demo_classification:
  "classifyAction (createTaskMessage ''researcher'' ''Look at the logs'') registry = ''routine''"
  by (simp add: classifyAction_def createTaskMessage_def DANGEROUS_PATTERNS_def SIGNIFICANT_PATTERNS_def
        lit_def regex_test_def isBoundary_def isWordChar_def canonicalize_def isWhiteSpace_def
        DANGEROUS_AGENTS_def SIGNIFICANT_AGENTS_def ROUTINE_AGENTS_def)

lemma dispatchToAgent_no_session:
  assumes "parseTaskMessage rt messageJson = Some tsk"
    and "registryHas (agents ctx) (agent_id (payload tsk))"
    and "cfg = (case autonomyConfig ctx of None \<Rightarrow> DEFAULT_AUTONOMY_CONFIG | Some c \<Rightarrow> c)"
    and "cls = classifyAction tsk (agents ctx)"
    and "determineGate (level cfg) cls = ''proceed''"
    and "parent_session_id (payload tsk) = None"
    and "sessionCreate (client ctx) w = (Inr None, w')"
  shows "dispatchToAgent rt messageJson ctx w
     = (Inr (stringify rt (failureAt rt w' SESSION_NOT_FOUND ''Failed to create session''
               (Some ''Session creation returned no ID''))), w')"
  using dispatchToAgent_allowed[OF assms(1-5), of w] dispatchBody_no_session[OF assms(6,7), of rt cfg cls]
  by simp

lemma registryHas_inherited: "registryHas registry ''constructor''"
  by (simp add: registryHas_def OBJECT_PROTOTYPE_KEYS_def split: option.splits)

text \<open>The dispatcher run on the runtime and the contexts of the examples.\<close>

lemma dispatchToAgent_examples:
  "dispatchToAgent demoRuntime ''task'' demoContext False
     = (Inr ''failure:AGENT_ERROR:connection refused'', False)"
  "dispatchToAgent demoRuntime ''task'' demoContext True = (Inr ''failure:TIMEOUT:'', True)"
  "dispatchToAgent demoRuntime ''task'' (demoContext\<lparr>client := nullPrototypeClient\<rparr>) True
     = (Inr ''failure:TIMEOUT:'', True)"
  "dispatchToAgent demoRuntime [] demoContext False
     = (Inr ''failure:VALIDATION_ERROR:Message must be a valid TaskMessage JSON envelope'', False)"
  "dispatchToAgent demoRuntime ''task'' (demoContext\<lparr>client := noSessionClient\<rparr>) False
     = (Inr ''failure:SESSION_NOT_FOUND:Session creation returned no ID'', False)"
  "dispatchToAgent demoRuntime ''task'' (demoContext\<lparr>agents := [(''coder'', ()), (''tester'', ())]\<rparr>) False
     = (Inr ''failure:UNKNOWN_AGENT:Available agents: coder, tester'', False)"
proof -
  let ?t = "createTaskMessage ''researcher'' ''Look at the logs''"
  let ?cfg = "\<lparr>level = ''autonomous'', maxRetries = 2\<rparr>"
  have parsed: "parseTaskMessage demoRuntime ''task'' = Some ?t"
    by (simp add: parseTaskMessage_def demoRuntime_def)
  have known: "registryHas (agents (demoContext\<lparr>client := c\<rparr>)) (agent_id (payload ?t))" for c
    by (simp add: registryHas_def demoContext_def createTaskMessage_def)
  have cfg: "?cfg = (case autonomyConfig (demoContext\<lparr>client := c\<rparr>) of
                       None \<Rightarrow> DEFAULT_AUTONOMY_CONFIG | Some c \<Rightarrow> c)" for c
    by (simp add: demoContext_def)
  have cls: "''routine'' = classifyAction ?t (agents (demoContext\<lparr>client := c\<rparr>))" for c
    using demo_classification[of "agents (demoContext\<lparr>client := c\<rparr>)"] by simp
  have go: "determineGate (level ?cfg) ''routine'' = ''proceed''"
    by (simp add: determineGate_def)
  have same: "demoContext\<lparr>client := client demoContext\<rparr> = demoContext" by simp
  have body: "dispatchBody demoRuntime ?t demoContext ?cfg ''routine'' w
                = (Inl (ErrorInstance ''connection refused''), w)" for w
    by (simp add: dispatchBody_def executeDispatch_def io_bind_def io_return_def demoContext_def
          createTaskMessage_def Let_def)
  have body': "dispatchBody demoRuntime ?t (demoContext\<lparr>client := nullPrototypeClient\<rparr>) ?cfg ''routine'' w
                = (Inl nullPrototypeObject, w)" for w
    by (simp add: dispatchBody_def executeDispatch_def io_bind_def io_return_def demoContext_def
          nullPrototypeClient_def createTaskMessage_def Let_def)
  show "dispatchToAgent demoRuntime ''task'' demoContext False
     = (Inr ''failure:AGENT_ERROR:connection refused'', False)"
    using dispatchToAgent_caught[OF parsed known[of "client demoContext"] cfg[of "client demoContext"]
            cls[of "client demoContext"] go, unfolded same, OF body[of False]]
    by (simp add: demoContext_def demoRuntime_def failureAt_def createFailureMessage_def)
  show "dispatchToAgent demoRuntime ''task'' demoContext True = (Inr ''failure:TIMEOUT:'', True)"
    using dispatchToAgent_caught[OF parsed known[of "client demoContext"] cfg[of "client demoContext"]
            cls[of "client demoContext"] go, unfolded same, OF body[of True]]
    by (simp add: demoContext_def demoRuntime_def failureAt_def createFailureMessage_def)
  show "dispatchToAgent demoRuntime ''task'' (demoContext\<lparr>client := nullPrototypeClient\<rparr>) True
     = (Inr ''failure:TIMEOUT:'', True)"
    using dispatchToAgent_caught[OF parsed known cfg cls go body'[of True]]
    by (simp add: demoContext_def demoRuntime_def failureAt_def createFailureMessage_def)
  show "dispatchToAgent demoRuntime [] demoContext False
     = (Inr ''failure:VALIDATION_ERROR:Message must be a valid TaskMessage JSON envelope'', False)"
    using dispatchToAgent_invalid_message[of demoRuntime "[]" demoContext False]
    by (simp add: parseTaskMessage_def demoRuntime_def failureAt_def createFailureMessage_def)
  show "dispatchToAgent demoRuntime ''task'' (demoContext\<lparr>client := noSessionClient\<rparr>) False
     = (Inr ''failure:SESSION_NOT_FOUND:Session creation returned no ID'', False)"
    using dispatchToAgent_no_session[OF parsed known cfg cls go, of noSessionClient False False]
    by (simp add: noSessionClient_def createTaskMessage_def demoRuntime_def failureAt_def
          createFailureMessage_def)
  show "dispatchToAgent demoRuntime ''task'' (demoContext\<lparr>agents := [(''coder'', ()), (''tester'', ())]\<rparr>) False
     = (Inr ''failure:UNKNOWN_AGENT:Available agents: coder, tester'', False)"
    using dispatchToAgent_unknown_agent[OF parsed,
            of "demoContext\<lparr>agents := [(''coder'', ()), (''tester'', ())]\<rparr>" False]
    by (simp add: registryHas_def OBJECT_PROTOTYPE_KEYS_def createTaskMessage_def demoRuntime_def
          failureAt_def createFailureMessage_def)
qed

text \<open>
  C9. The claim is that \<^verbatim>\<open>dispatchToAgent\<close> never throws. The lemmas above give what
  holds of the code: every path returns a serialised envelope or throws what the conversion
  in the \<^verbatim>\<open>catch\<close> block throws; the failures \<^verbatim>\<open>VALIDATION_ERROR\<close>,
  \<^verbatim>\<open>UNKNOWN_AGENT\<close>, \<^verbatim>\<open>AUTONOMY_BLOCKED\<close> and \<^verbatim>\<open>SESSION_NOT_FOUND\<close> are serialised;
  an exception of the execution gives \<^verbatim>\<open>TIMEOUT\<close> when the abort signal is set and
  otherwise \<^verbatim>\<open>AGENT_ERROR\<close> with its text as cause. The claim itself fails: when the
  client throws an object with a null prototype and the abort signal is not set,
  \<^verbatim>\<open>String(err)\<close> throws a \<^verbatim>\<open>TypeError\<close> inside the \<^verbatim>\<open>catch\<close> block and
  \<^verbatim>\<open>dispatchToAgent\<close> throws it to its caller.
\<close>

theorem dispatchToAgent_rejects_null_prototype:
  "dispatchToAgent demoRuntime ''task'' (demoContext\<lparr>client := nullPrototypeClient\<rparr>) False
     = (Inl (ErrorInstance ''Cannot convert object to primitive value''), False)"
proof -
  let ?t = "createTaskMessage ''researcher'' ''Look at the logs''"
  let ?ctx = "demoContext\<lparr>client := nullPrototypeClient\<rparr>"
  let ?cfg = "\<lparr>level = ''autonomous'', maxRetries = 2\<rparr>"
  have parsed: "parseTaskMessage demoRuntime ''task'' = Some ?t"
    by (simp add: parseTaskMessage_def demoRuntime_def)
  have known: "registryHas (agents ?ctx) (agent_id (payload ?t))"
    by (simp add: registryHas_def demoContext_def createTaskMessage_def)
  have cfg: "?cfg = (case autonomyConfig ?ctx of None \<Rightarrow> DEFAULT_AUTONOMY_CONFIG | Some c \<Rightarrow> c)"
    by (simp add: demoContext_def)
  have cls: "''routine'' = classifyAction ?t (agents ?ctx)"
    using demo_classification[of "agents ?ctx"] by simp
  have go: "determineGate (level ?cfg) ''routine'' = ''proceed''"
    by (simp add: determineGate_def)
  have body: "dispatchBody demoRuntime ?t ?ctx ?cfg ''routine'' False = (Inl nullPrototypeObject, False)"
    by (simp add: dispatchBody_def executeDispatch_def io_bind_def io_return_def demoContext_def
          nullPrototypeClient_def createTaskMessage_def Let_def)
  show ?thesis
    using dispatchToAgent_caught[OF parsed known cfg cls go body]
    by (simp add: demoContext_def nullPrototypeObject_def)
qed

end
